theory Spec2Isabelle
  imports Main "HOL-Library.Word"
begin

section \<open>ShareSafely upload gateway (01-ShareSafely-File-Share/code/server.js)\<close>

text \<open>
  Strings of the program are modelled as \<^typ>\<open>string\<close>. Every character outside the
  ASCII letters, digits, dot and hyphen is treated alike by the code below (it is replaced,
  or it fails to match a key of the content-type table), so the 8-bit characters of
  \<^typ>\<open>char\<close> lose nothing that the claims depend on.
\<close>

subsection \<open>Rendering a clock reading inside a template literal\<close>

text \<open>
  \<open>Date.now()\<close> yields the milliseconds elapsed since the epoch, a natural number below
  \<open>10^21\<close>, which a template literal prints in plain decimal notation.
\<close>

definition digit_char :: "nat \<Rightarrow> char" where
  "digit_char d = ''0123456789'' ! (d mod 10)"

fun string_of_nat :: "nat \<Rightarrow> string" where
  "string_of_nat n =
     (if n < 10 then [digit_char n] else string_of_nat (n div 10) @ [digit_char n])"

declare string_of_nat.simps [simp del]

subsection \<open>Store key derivation (uploadFileToBlob, lines 136-138)\<close>

text \<open>The character class \<open>[a-zA-Z0-9.-]\<close> of the regular expression on line 137.\<close>

definition allowed_char :: "char \<Rightarrow> bool" where
  "allowed_char c \<longleftrightarrow>
     c \<in> set ''abcdefghijklmnopqrstuvwxyzABCDEFGHIJKLMNOPQRSTUVWXYZ0123456789.-''"

text \<open>\<open>originalFileName.replace(/[^a-zA-Z0-9.-]/g, '_')\<close>\<close>

definition sanitize_char :: "char \<Rightarrow> char" where
  "sanitize_char c = (if allowed_char c then c else CHR ''_'')"

definition sanitizedFileName :: "string \<Rightarrow> string" where
  "sanitizedFileName originalFileName = map sanitize_char originalFileName"

text \<open>\<open>`${timestamp}-${sanitizedFileName}`\<close>\<close>

definition blobName_of :: "nat \<Rightarrow> string \<Rightarrow> string" where
  "blobName_of timestamp originalFileName =
     string_of_nat timestamp @ ''-'' @ sanitizedFileName originalFileName"

subsection \<open>The key pattern of the specification\<close>

text \<open>
  The pattern \<open>^[0-9]+-[A-Za-z0-9._-]+$\<close> is stated by the specification, not by the
  source. \<open>key_pattern_spec\<close> is its meaning as a language; \<open>matches_key_pattern\<close> decides
  it by reading the string from the left (a hyphen is no digit, so the run of digits is
  forced).
\<close>

definition is_digit :: "char \<Rightarrow> bool" where
  "is_digit c \<longleftrightarrow> c \<in> set ''0123456789''"

definition key_char :: "char \<Rightarrow> bool" where
  "key_char c \<longleftrightarrow>
     c \<in> set ''ABCDEFGHIJKLMNOPQRSTUVWXYZabcdefghijklmnopqrstuvwxyz0123456789._-''"

definition key_pattern_spec :: "string \<Rightarrow> bool" where
  "key_pattern_spec s \<longleftrightarrow>
     (\<exists>ds rest. s = ds @ ''-'' @ rest \<and> ds \<noteq> [] \<and> list_all is_digit ds
        \<and> rest \<noteq> [] \<and> list_all key_char rest)"

definition matches_key_pattern :: "string \<Rightarrow> bool" where
  "matches_key_pattern s =
     (takeWhile is_digit s \<noteq> [] \<and>
      (case dropWhile is_digit s of
         [] \<Rightarrow> False
       | c # rest \<Rightarrow> c = CHR ''-'' \<and> rest \<noteq> [] \<and> list_all key_char rest))"

subsection \<open>Content type detection (getContentType, lines 173-192)\<close>

text \<open>
  \<open>path.extname\<close> belongs to the Node.js runtime. It is modelled after the POSIX
  implementation of the runtime: one pass over the path from its last character to its
  first, with the loop variables of that implementation (\<open>-1\<close> marks "not yet seen").
\<close>

record extname_state =
  startDot :: int
  startPart :: int
  end_pos :: int
  matchedSlash :: bool
  preDotState :: int

fun extname_loop :: "string \<Rightarrow> nat \<Rightarrow> extname_state \<Rightarrow> extname_state" where
  "extname_loop path 0 st = st"
| "extname_loop path (Suc i) st =
     (if path ! i = CHR ''/'' then
        (if \<not> matchedSlash st then st\<lparr>startPart := int i + 1\<rparr>
         else extname_loop path i st)
      else
        (let st1 = (if end_pos st = - 1
                    then st\<lparr>matchedSlash := False, end_pos := int i + 1\<rparr> else st);
             st2 = (if path ! i = CHR ''.'' then
                      (if startDot st1 = - 1 then st1\<lparr>startDot := int i\<rparr>
                       else if preDotState st1 \<noteq> 1 then st1\<lparr>preDotState := 1\<rparr>
                       else st1)
                    else if startDot st1 \<noteq> - 1 then st1\<lparr>preDotState := - 1\<rparr>
                    else st1)
         in extname_loop path i st2))"

definition extname :: "string \<Rightarrow> string" where
  "extname path =
     (let st = extname_loop path (length path)
                 \<lparr>startDot = - 1, startPart = 0, end_pos = - 1,
                  matchedSlash = True, preDotState = 0\<rparr>
      in if startDot st = - 1 \<or> end_pos st = - 1 \<or> preDotState st = 0 \<or>
            (preDotState st = 1 \<and> startDot st = end_pos st - 1
               \<and> startDot st = startPart st + 1)
         then ''''
         else take (nat (end_pos st - startDot st)) (drop (nat (startDot st)) path))"

text \<open>
  \<open>String.prototype.toLowerCase\<close>, on the ASCII letters. No key of the table below has a
  character outside ASCII, so the treatment of other characters cannot change a lookup.
\<close>

definition lower_char :: "char \<Rightarrow> char" where
  "lower_char c =
     (case map_of (zip ''ABCDEFGHIJKLMNOPQRSTUVWXYZ'' ''abcdefghijklmnopqrstuvwxyz'') c of
        Some l \<Rightarrow> l
      | None \<Rightarrow> c)"

definition toLowerCase :: "string \<Rightarrow> string" where
  "toLowerCase s = map lower_char s"

definition contentTypes :: "(string \<times> string) list" where
  "contentTypes =
     [(''.pdf'', ''application/pdf''),
      (''.doc'', ''application/msword''),
      (''.docx'', ''application/vnd.openxmlformats-officedocument.wordprocessingml.document''),
      (''.xls'', ''application/vnd.ms-excel''),
      (''.xlsx'', ''application/vnd.openxmlformats-officedocument.spreadsheetml.sheet''),
      (''.ppt'', ''application/vnd.ms-powerpoint''),
      (''.pptx'', ''application/vnd.openxmlformats-officedocument.presentationml.presentation''),
      (''.txt'', ''text/plain''),
      (''.jpg'', ''image/jpeg''),
      (''.jpeg'', ''image/jpeg''),
      (''.png'', ''image/png''),
      (''.gif'', ''image/gif''),
      (''.zip'', ''application/zip''),
      (''.rar'', ''application/x-rar-compressed'')]"

text \<open>
  \<open>contentTypes[ext] || 'application/octet-stream'\<close>: the fallback is taken when the
  lookup is undefined, and would be taken for an empty string as well. The extension is
  a parameter of \<open>getContentType_with\<close>, so that statements about the lookup hold for
  the path rules of any platform.
\<close>

definition getContentType_with :: "(string \<Rightarrow> string) \<Rightarrow> string \<Rightarrow> string" where
  "getContentType_with ext_of fileName =
     (let ext = toLowerCase (ext_of fileName)
      in case map_of contentTypes ext of
           None \<Rightarrow> ''application/octet-stream''
         | Some t \<Rightarrow> if t = [] then ''application/octet-stream'' else t)"

definition getContentType :: "string \<Rightarrow> string" where
  "getContentType fileName = getContentType_with extname fileName"

subsection \<open>Configuration (lines 42-51)\<close>

text \<open>
  \<open>parseInt\<close> of the runtime, called without a radix: leading white space is skipped, a
  sign is read, a prefix \<open>0x\<close> or \<open>0X\<close> selects base sixteen, and the longest run of
  digits is converted; no digit at all gives \<open>NaN\<close>, here \<open>None\<close>. The result is an
  integral number, modelled by \<^typ>\<open>int\<close>. The model is the runtime's function on
  ASCII input whose run of digits stays below \<open>2^53\<close>. It is not outside: the runtime
  also skips the white space beyond ASCII, rounds a longer run of digits to a double and
  overflows to \<open>Infinity\<close>. Every statement below applies it to \<open>''60''\<close> only, or holds
  for an arbitrary configuration.
\<close>

definition is_white :: "char \<Rightarrow> bool" where
  "is_white c \<longleftrightarrow> c \<in> set [CHR 0x09, CHR 0x0A, CHR 0x0B, CHR 0x0C, CHR 0x0D, CHR 0x20]"

definition digit_value :: "char \<Rightarrow> nat option" where
  "digit_value c =
     map_of (zip ''0123456789abcdef'' [0, 1, 2, 3, 4, 5, 6, 7, 8, 9, 10, 11, 12, 13, 14, 15])
       (lower_char c)"

definition is_radix_digit :: "nat \<Rightarrow> char \<Rightarrow> bool" where
  "is_radix_digit radix c = (case digit_value c of None \<Rightarrow> False | Some v \<Rightarrow> v < radix)"

definition radix_value :: "nat \<Rightarrow> string \<Rightarrow> nat" where
  "radix_value radix z =
     foldl (\<lambda>acc c. acc * radix + (case digit_value c of None \<Rightarrow> 0 | Some v \<Rightarrow> v)) 0 z"

definition parseInt :: "string \<Rightarrow> int option" where
  "parseInt input =
     (let s = dropWhile is_white input;
          sign = (if take 1 s = ''-'' then - 1 else 1);
          s1 = (if take 1 s = ''-'' \<or> take 1 s = ''+'' then drop 1 s else s);
          hex = (take 2 s1 = ''0x'' \<or> take 2 s1 = ''0X'');
          radix = (if hex then 16 else 10);
          s2 = (if hex then drop 2 s1 else s1);
          z = takeWhile (is_radix_digit radix) s2
      in if z = [] then None else Some (sign * int (radix_value radix z)))"

record config =
  storageAccountName :: string
  containerName :: string
  sasExpiryMinutes :: "int option"

text \<open>\<open>process.env.X || d\<close>: an unset variable and an empty one both give the default.\<close>

definition env_or :: "(string \<Rightarrow> string option) \<Rightarrow> string \<Rightarrow> string \<Rightarrow> string" where
  "env_or env name dflt =
     (case env name of None \<Rightarrow> dflt | Some v \<Rightarrow> if v = [] then dflt else v)"

text \<open>
  The module-level constants. \<open>None\<close> is \<open>process.exit(1)\<close>: without an account name the
  server never starts.
\<close>

definition loadConfig :: "(string \<Rightarrow> string option) \<Rightarrow> config option" where
  "loadConfig env =
     (let account = env_or env ''AZURE_STORAGE_ACCOUNT_NAME'' []
      in if account = [] then None
         else Some \<lparr>storageAccountName = account,
                    containerName = env_or env ''AZURE_STORAGE_CONTAINER_NAME'' ''uploaded-files'',
                    sasExpiryMinutes = parseInt (env_or env ''SAS_TOKEN_EXPIRY_MINUTES'' ''60'')\<rparr>)"

subsection \<open>Responses\<close>

text \<open>
  The value handed to \<open>res.json\<close>. \<open>JIsoDate t\<close> stands for the string that
  \<open>toISOString()\<close> yields for the valid time value \<open>t\<close> (milliseconds since the epoch); the
  rendering is one-to-one, so the time value is all that the string carries.
\<close>

datatype json =
    JNull
  | JBool bool
  | JNum int
  | JStr string
  | JIsoDate int
  | JObj "(string \<times> json) list"

definition json_field :: "string \<Rightarrow> json \<Rightarrow> json option" where
  "json_field k j = (case j of JObj kvs \<Rightarrow> map_of kvs k | _ \<Rightarrow> None)"

text \<open>\<open>JSON.stringify\<close> writes \<open>NaN\<close> as \<open>null\<close>.\<close>

definition json_number :: "int option \<Rightarrow> json" where
  "json_number v = (case v of None \<Rightarrow> JNull | Some n \<Rightarrow> JNum n)"

record response =
  status :: nat
  body :: json

subsection \<open>Dates\<close>

text \<open>
  \<open>new Date(v)\<close> clips its argument: beyond 8.64e15 milliseconds on either side of the
  epoch, and for \<open>NaN\<close>, the date is invalid (\<open>None\<close>), and \<open>toISOString()\<close> of an invalid
  date throws a RangeError with the message below.
\<close>

definition new_Date :: "int option \<Rightarrow> int option" where
  "new_Date v =
     (case v of
        None \<Rightarrow> None
      | Some t \<Rightarrow> if \<bar>t\<bar> \<le> 8640000000000000 then Some t else None)"

definition invalid_time_value :: string where
  "invalid_time_value = ''Invalid time value''"

subsection \<open>The storage SDK and the world\<close>

type_synonym buffer = "8 word list"

datatype sas_protocol = Https | HttpsAndHttp

record blob_sas_permissions =
  read :: bool
  add :: bool
  create :: bool
  write_perm :: bool
  delete :: bool
  deleteVersion :: bool
  tag :: bool
  move :: bool
  execute :: bool
  setImmutabilityPolicy :: bool
  permanentDelete :: bool

definition no_permissions :: blob_sas_permissions where
  "no_permissions =
     \<lparr>read = False, add = False, create = False, write_perm = False, delete = False,
      deleteVersion = False, tag = False, move = False, execute = False,
      setImmutabilityPolicy = False, permanentDelete = False\<rparr>"

text \<open>
  \<open>BlobSASPermissions.parse\<close> of the SDK: one flag per letter, a RangeError for any other
  character. A blob-level grant has no list permission at all.
\<close>

fun parse_permissions :: "string \<Rightarrow> blob_sas_permissions \<Rightarrow> string + blob_sas_permissions" where
  "parse_permissions [] p = Inr p"
| "parse_permissions (c # cs) p =
     (if c = CHR ''r'' then parse_permissions cs (p\<lparr>read := True\<rparr>)
      else if c = CHR ''a'' then parse_permissions cs (p\<lparr>add := True\<rparr>)
      else if c = CHR ''c'' then parse_permissions cs (p\<lparr>create := True\<rparr>)
      else if c = CHR ''w'' then parse_permissions cs (p\<lparr>write_perm := True\<rparr>)
      else if c = CHR ''d'' then parse_permissions cs (p\<lparr>delete := True\<rparr>)
      else if c = CHR ''x'' then parse_permissions cs (p\<lparr>deleteVersion := True\<rparr>)
      else if c = CHR ''t'' then parse_permissions cs (p\<lparr>tag := True\<rparr>)
      else if c = CHR ''m'' then parse_permissions cs (p\<lparr>move := True\<rparr>)
      else if c = CHR ''e'' then parse_permissions cs (p\<lparr>execute := True\<rparr>)
      else if c = CHR ''i'' then parse_permissions cs (p\<lparr>setImmutabilityPolicy := True\<rparr>)
      else if c = CHR ''y'' then parse_permissions cs (p\<lparr>permanentDelete := True\<rparr>)
      else Inl (''Invalid permission: '' @ [c]))"

definition BlobSASPermissions_parse :: "string \<Rightarrow> string + blob_sas_permissions" where
  "BlobSASPermissions_parse s = parse_permissions s no_permissions"

record sas_options =
  sas_containerName :: string
  sas_blobName :: string
  permissions :: blob_sas_permissions
  protocol :: sas_protocol
  startsOn :: int
  expiresOn :: int

text \<open>
  Every call that leaves the process for the SDK, with its arguments, in the order made.
\<close>

datatype call =
    CreateIfNotExists string
  | UploadBlob string string buffer nat string
  | GetUserDelegationKey int int
  | GenerateBlobSASQueryParameters sas_options string string

text \<open>
  What the SDK answers. \<open>Inl m\<close> is a rejected promise or a thrown error with message \<open>m\<close>;
  \<open>Inr\<close> carries the value the code reads (the request id of an upload, the user
  delegation key, the signed query string). \<open>blobClient_url\<close> is the canonical location
  of a blob, from account, container and blob name.
\<close>

record services =
  createIfNotExists :: "string \<Rightarrow> string + unit"
  upload :: "string \<Rightarrow> string \<Rightarrow> buffer \<Rightarrow> nat \<Rightarrow> string \<Rightarrow> string + string"
  getUserDelegationKey :: "int \<Rightarrow> int \<Rightarrow> string + string"
  generateBlobSASQueryParameters :: "sas_options \<Rightarrow> string \<Rightarrow> string \<Rightarrow> string + string"
  blobClient_url :: "string \<Rightarrow> string \<Rightarrow> string \<Rightarrow> string"

text \<open>
  The world threaded through a request: the system clock as the sequence of its readings
  (\<open>reads\<close> counts the readings taken so far) and the log of SDK calls.
\<close>

record world =
  clock :: "nat \<Rightarrow> nat"
  reads :: nat
  calls :: "call list"

definition Date_now :: "world \<Rightarrow> nat \<times> world" where
  "Date_now w = (clock w (reads w), w\<lparr>reads := Suc (reads w)\<rparr>)"

definition record_call :: "call \<Rightarrow> world \<Rightarrow> world" where
  "record_call c w = w\<lparr>calls := calls w @ [c]\<rparr>"

subsection \<open>uploadFileToBlob (lines 133-168)\<close>

text \<open>
  The \<open>catch\<close> block logs and rethrows, so an error of the SDK leaves the function with
  its message unchanged. Nothing inspects the container for the derived key before the
  write, and nothing repeats a failed call.
\<close>

definition uploadFileToBlob ::
  "services \<Rightarrow> config \<Rightarrow> buffer \<Rightarrow> string \<Rightarrow> world \<Rightarrow> (string + string) \<times> world" where
  "uploadFileToBlob sv cfg fileBuffer originalFileName w =
     (let (timestamp, w1) = Date_now w;
          blobName = blobName_of timestamp originalFileName;
          w2 = record_call (CreateIfNotExists (containerName cfg)) w1
      in case createIfNotExists sv (containerName cfg) of
           Inl m \<Rightarrow> (Inl m, w2)
         | Inr _ \<Rightarrow>
             (let contentType = getContentType originalFileName;
                  w3 = record_call
                         (UploadBlob (containerName cfg) blobName fileBuffer
                            (length fileBuffer) contentType) w2
              in case upload sv (containerName cfg) blobName fileBuffer
                        (length fileBuffer) contentType of
                   Inl m \<Rightarrow> (Inl m, w3)
                 | Inr requestId \<Rightarrow> (Inr blobName, w3)))"

subsection \<open>generateUserDelegationSAS (lines 72-124)\<close>

text \<open>
  The two \<open>toISOString()\<close> calls of the log lines 80 and 81 come before the request for
  the delegation key, so an invalid date ends the function with no SDK call.
\<close>

definition sasOptions_of ::
  "config \<Rightarrow> string \<Rightarrow> blob_sas_permissions \<Rightarrow> int \<Rightarrow> int \<Rightarrow> sas_options" where
  "sasOptions_of cfg blobName sasPermissions tenMinutesBefore expiryTime =
     \<lparr>sas_containerName = containerName cfg,
      sas_blobName = blobName,
      permissions = sasPermissions,
      protocol = Https,
      startsOn = tenMinutesBefore,
      expiresOn = expiryTime\<rparr>"

definition generateUserDelegationSAS ::
  "services \<Rightarrow> config \<Rightarrow> string \<Rightarrow> world \<Rightarrow> (string + string) \<times> world" where
  "generateUserDelegationSAS sv cfg blobName w =
     (let (now, w1) = Date_now w;
          tenMinutesBefore = new_Date (Some (int now - (10 * 60 * 1000)));
          expiryTime = new_Date (map_option (\<lambda>n. int now + (n * 60 * 1000))
                                  (sasExpiryMinutes cfg))
      in case tenMinutesBefore of
           None \<Rightarrow> (Inl invalid_time_value, w1)
         | Some starts \<Rightarrow>
         (case expiryTime of
            None \<Rightarrow> (Inl invalid_time_value, w1)
          | Some expires \<Rightarrow>
          (let w2 = record_call (GetUserDelegationKey starts expires) w1
           in case getUserDelegationKey sv starts expires of
                Inl m \<Rightarrow> (Inl m, w2)
              | Inr userDelegationKey \<Rightarrow>
              (case BlobSASPermissions_parse ''r'' of
                 Inl m \<Rightarrow> (Inl m, w2)
               | Inr sasPermissions \<Rightarrow>
               (let sasOptions = sasOptions_of cfg blobName sasPermissions starts expires;
                    w3 = record_call
                           (GenerateBlobSASQueryParameters sasOptions userDelegationKey
                              (storageAccountName cfg)) w2
                in case generateBlobSASQueryParameters sv sasOptions userDelegationKey
                          (storageAccountName cfg) of
                     Inl m \<Rightarrow> (Inl m, w3)
                   | Inr sasToken \<Rightarrow>
                       (Inr (blobClient_url sv (storageAccountName cfg) (containerName cfg)
                               blobName @ ''?'' @ sasToken), w3))))))"

subsection \<open>The multipart middleware (lines 35-40)\<close>

text \<open>
  A request carries at most one part, in the form field \<open>file\<close>: its file name as the
  request states it (empty when it states none), its media type (lower-cased, without
  parameters; \<open>text/plain\<close> when it states none) and its bytes.

  The middleware \<open>upload.single('file')\<close> is the multer library on its multipart parser.
  Neither is code of this repository; the source only sets the storage and the limit
  \<open>fileSize\<close>. The model follows the library:

  \<^item> A part without a file name is a file only if its media type is
    \<open>application/octet-stream\<close>, and a file without a name is discarded. Any other part
    without a file name is a text field; a text field that reaches 1 MiB (the default
    limit \<open>fieldSize\<close>) ends the request with the error \<open>Field value too long\<close>.
  \<^item> A file name is cut down to its base name, the part after the last slash or
    backslash; the base names \<open>.\<close> and \<open>..\<close> count as empty. A file whose base name is
    empty is discarded.
  \<^item> A file that reaches \<open>fileSize\<close> bytes ends the request with the error
    \<open>File too large\<close>: the parser reads at most as many bytes as the limit allows and
    reports the limit once that many have been read.
  \<^item> Any other file becomes \<open>req.file\<close>, with the base name as \<open>originalname\<close>.

  An error goes to the error handling middleware; otherwise the handler runs, with
  \<open>req.file\<close> set or not.
\<close>

record file_part =
  part_filename :: string
  part_mimetype :: string
  part_data :: buffer

record multer_file =
  originalname :: string
  mimetype :: string
  buffer :: buffer
  file_size :: nat

definition fileSize :: nat where
  "fileSize = 100 * 1024 * 1024"

definition fieldSize :: nat where
  "fieldSize = 1024 * 1024"

definition is_separator :: "char \<Rightarrow> bool" where
  "is_separator c \<longleftrightarrow> c = CHR ''/'' \<or> c = CHR 0x5C"

definition basename :: "string \<Rightarrow> string" where
  "basename path =
     (let b = rev (takeWhile (\<lambda>c. \<not> is_separator c) (rev path))
      in if b = ''..'' \<or> b = ''.'' then [] else b)"

definition multer_single :: "file_part option \<Rightarrow> string + multer_file option" where
  "multer_single part =
     (case part of
        None \<Rightarrow> Inr None
      | Some p \<Rightarrow>
          if part_filename p = [] then
            (if part_mimetype p = ''application/octet-stream'' then Inr None
             else if length (part_data p) \<ge> fieldSize then Inl ''Field value too long''
             else Inr None)
          else if basename (part_filename p) = [] then Inr None
          else if length (part_data p) \<ge> fileSize then Inl ''File too large''
          else Inr (Some \<lparr>originalname = basename (part_filename p),
                          mimetype = part_mimetype p,
                          buffer = part_data p, file_size = length (part_data p)\<rparr>))"

subsection \<open>Routes (lines 200-262)\<close>

definition health :: "config \<Rightarrow> world \<Rightarrow> response \<times> world" where
  "health cfg w =
     (\<lparr>status = 200,
       body = JObj [(''status'', JStr ''healthy''),
                    (''storageAccount'', JStr (storageAccountName cfg)),
                    (''container'', JStr (containerName cfg)),
                    (''sasExpiryMinutes'', json_number (sasExpiryMinutes cfg))]\<rparr>, w)"

definition upload_failed :: "string \<Rightarrow> response" where
  "upload_failed m =
     \<lparr>status = 500,
      body = JObj [(''error'', JStr ''Failed to upload file. Please try again.''),
                   (''details'', JStr m)]\<rparr>"

definition error_middleware :: "string \<Rightarrow> response" where
  "error_middleware m =
     \<lparr>status = 500,
      body = JObj [(''error'', JStr ''An unexpected error occurred''),
                   (''details'', JStr m)]\<rparr>"

definition no_file_uploaded :: response where
  "no_file_uploaded =
     \<lparr>status = 400,
      body = JObj [(''error'', JStr ''No file uploaded. Please select a file.'')]\<rparr>"

text \<open>The handler of \<open>POST /upload\<close>, given \<open>req.file\<close>.\<close>

definition upload_handler ::
  "services \<Rightarrow> config \<Rightarrow> multer_file option \<Rightarrow> world \<Rightarrow> response \<times> world" where
  "upload_handler sv cfg req_file w =
     (case req_file of
        None \<Rightarrow> (no_file_uploaded, w)
      | Some file \<Rightarrow>
          (case uploadFileToBlob sv cfg (buffer file) (originalname file) w of
             (Inl m, w1) \<Rightarrow> (upload_failed m, w1)
           | (Inr blobName, w1) \<Rightarrow>
               (case generateUserDelegationSAS sv cfg blobName w1 of
                  (Inl m, w2) \<Rightarrow> (upload_failed m, w2)
                | (Inr sasUrl, w2) \<Rightarrow>
                    (let (now, w3) = Date_now w2
                     in case new_Date (map_option (\<lambda>n. int now + (n * 60 * 1000))
                                         (sasExpiryMinutes cfg)) of
                          None \<Rightarrow> (upload_failed invalid_time_value, w3)
                        | Some expiresAt \<Rightarrow>
                            (\<lparr>status = 200,
                              body = JObj [(''success'', JBool True),
                                           (''message'', JStr ''File uploaded successfully!''),
                                           (''fileName'', JStr (originalname file)),
                                           (''blobName'', JStr blobName),
                                           (''sasUrl'', JStr sasUrl),
                                           (''expiresAt'', JIsoDate expiresAt),
                                           (''expiresInMinutes'',
                                              json_number (sasExpiryMinutes cfg))]\<rparr>,
                             w3)))))"

text \<open>\<open>app.post('/upload', upload.single('file'), ...)\<close> with the error handling middleware.\<close>

definition post_upload ::
  "services \<Rightarrow> config \<Rightarrow> file_part option \<Rightarrow> world \<Rightarrow> response \<times> world" where
  "post_upload sv cfg part w =
     (case multer_single part of
        Inl m \<Rightarrow> (error_middleware m, w)
      | Inr req_file \<Rightarrow> upload_handler sv cfg req_file w)"

subsection \<open>A concrete deployment\<close>

text \<open>
  An SDK whose calls all succeed, the configuration of an environment that sets only the
  account name, and a clock that advances between the three readings of one upload.
\<close>

definition ok_services :: services where
  "ok_services =
     \<lparr>createIfNotExists = (\<lambda>container. Inr ()),
      upload = (\<lambda>container blobName data len contentType. Inr ''req-1''),
      getUserDelegationKey = (\<lambda>starts expires. Inr ''key-1''),
      generateBlobSASQueryParameters = (\<lambda>opts key account. Inr ''sig=abc''),
      blobClient_url = (\<lambda>account container blobName.
         ''https://'' @ account @ ''.blob.core.windows.net/'' @ container @ ''/'' @ blobName)\<rparr>"

definition grant_failing_services :: services where
  "grant_failing_services =
     ok_services\<lparr>getUserDelegationKey := (\<lambda>starts expires. Inl ''AuthorizationFailure'')\<rparr>"

definition demo_env :: "string \<Rightarrow> string option" where
  "demo_env name = (if name = ''AZURE_STORAGE_ACCOUNT_NAME'' then Some ''acct'' else None)"

definition demo_config :: config where
  "demo_config =
     \<lparr>storageAccountName = ''acct'', containerName = ''uploaded-files'',
      sasExpiryMinutes = Some 60\<rparr>"

definition demo_world :: world where
  "demo_world =
     \<lparr>clock = (\<lambda>k. 1700000000000 + 250 * k), reads = 0, calls = []\<rparr>"

definition demo_part :: file_part where
  "demo_part =
     \<lparr>part_filename = ''my file.PDF'', part_mimetype = ''application/pdf'',
      part_data = [37, 80, 68, 70]\<rparr>"

definition empty_part :: file_part where
  "empty_part =
     \<lparr>part_filename = ''empty.txt'', part_mimetype = ''text/plain'', part_data = []\<rparr>"

definition oversize_part :: file_part where
  "oversize_part =
     \<lparr>part_filename = ''big.bin'', part_mimetype = ''application/octet-stream'',
      part_data = replicate 104857601 0\<rparr>"

text \<open>The \<open>req.file\<close> that the middleware makes of \<open>demo_part\<close> and of \<open>empty_part\<close>.\<close>

definition demo_file :: multer_file where
  "demo_file =
     \<lparr>originalname = ''my file.PDF'', mimetype = ''application/pdf'',
      buffer = [37, 80, 68, 70], file_size = 4\<rparr>"

definition empty_file :: multer_file where
  "empty_file =
     \<lparr>originalname = ''empty.txt'', mimetype = ''text/plain'', buffer = [], file_size = 0\<rparr>"

text \<open>Parts that the middleware does not pass on as they are.\<close>

definition nested_part :: file_part where
  "nested_part =
     \<lparr>part_filename = ''a/b.txt'', part_mimetype = ''text/plain'', part_data = [104, 105]\<rparr>"

definition dotdot_part :: file_part where
  "dotdot_part =
     \<lparr>part_filename = ''..'', part_mimetype = ''text/plain'', part_data = [104, 105]\<rparr>"

definition long_field_part :: file_part where
  "long_field_part =
     \<lparr>part_filename = [], part_mimetype = ''text/plain'',
      part_data = replicate 1048577 0\<rparr>"

text \<open>What the concrete deployment answers to the upload of \<open>demo_part\<close>.\<close>

definition demo_response :: response where
  "demo_response =
     \<lparr>status = 200,
      body = JObj [(''success'', JBool True),
                   (''message'', JStr ''File uploaded successfully!''),
                   (''fileName'', JStr ''my file.PDF''),
                   (''blobName'', JStr ''1700000000000-my_file.PDF''),
                   (''sasUrl'', JStr
                      ''https://acct.blob.core.windows.net/uploaded-files/1700000000000-my_file.PDF?sig=abc''),
                   (''expiresAt'', JIsoDate 1700003600500),
                   (''expiresInMinutes'', JNum 60)]\<rparr>"

definition demo_options :: sas_options where
  "demo_options =
     \<lparr>sas_containerName = ''uploaded-files'',
      sas_blobName = ''1700000000000-my_file.PDF'',
      permissions =
        \<lparr>read = True, add = False, create = False, write_perm = False, delete = False,
         deleteVersion = False, tag = False, move = False, execute = False,
         setImmutabilityPolicy = False, permanentDelete = False\<rparr>,
      protocol = Https,
      startsOn = 1699999400250,
      expiresOn = 1700003600250\<rparr>"

definition demo_calls :: "call list" where
  "demo_calls =
     [CreateIfNotExists ''uploaded-files'',
      UploadBlob ''uploaded-files'' ''1700000000000-my_file.PDF'' [37, 80, 68, 70] 4
        ''application/pdf'',
      GetUserDelegationKey 1699999400250 1700003600250,
      GenerateBlobSASQueryParameters demo_options ''key-1'' ''acct'']"

subsection \<open>Vocabulary for the statements\<close>

text \<open>The calls that belong to the issuance of an access grant.\<close>

definition is_grant_call :: "call \<Rightarrow> bool" where
  "is_grant_call c =
     (case c of
        GetUserDelegationKey s e \<Rightarrow> True
      | GenerateBlobSASQueryParameters opts udk account \<Rightarrow> True
      | _ \<Rightarrow> False)"

text \<open>A write of the given key that the store acknowledged.\<close>

definition acked_write :: "services \<Rightarrow> string \<Rightarrow> call \<Rightarrow> bool" where
  "acked_write sv key c =
     (case c of
        UploadBlob container k data len contentType \<Rightarrow>
          k = key \<and> (case upload sv container k data len contentType of
                       Inl m \<Rightarrow> False | Inr requestId \<Rightarrow> True)
      | _ \<Rightarrow> False)"

text \<open>The blob that a signing call names.\<close>

definition signs_key :: "string \<Rightarrow> call \<Rightarrow> bool" where
  "signs_key key c =
     (case c of
        GenerateBlobSASQueryParameters opts udk account \<Rightarrow> sas_blobName opts = key
      | _ \<Rightarrow> True)"

section \<open>Properties of the string functions\<close>

lemma sanitize_char_idem: "sanitize_char (sanitize_char c) = sanitize_char c"
  by (simp add: sanitize_char_def allowed_char_def)

lemma sanitizedFileName_idem:
  "sanitizedFileName (sanitizedFileName s) = sanitizedFileName s"
  by (simp add: sanitizedFileName_def sanitize_char_idem)

lemma key_char_sanitize_char: "key_char (sanitize_char c)"
  by (auto simp add: sanitize_char_def allowed_char_def key_char_def)

lemma key_char_sanitizedFileName: "list_all key_char (sanitizedFileName s)"
  by (simp add: sanitizedFileName_def list_all_iff key_char_sanitize_char)

lemma is_digit_digit_char: "is_digit (digit_char d)"
proof -
  have "d mod 10 < length ''0123456789''" by simp
  then have "''0123456789'' ! (d mod 10) \<in> set ''0123456789''" by (rule nth_mem)
  then show ?thesis by (simp only: is_digit_def digit_char_def)
qed

lemma string_of_nat_digits: "list_all is_digit (string_of_nat n)"
proof (induction n rule: string_of_nat.induct)
  case (1 n)
  then show ?case
    by (subst string_of_nat.simps) (simp add: is_digit_digit_char)
qed

lemma string_of_nat_nonempty: "string_of_nat n \<noteq> []"
  by (subst string_of_nat.simps) simp

lemma not_digit_hyphen: "\<not> is_digit CHR ''-''"
  by (simp add: is_digit_def)

lemma matches_key_pattern_append:
  assumes "ds \<noteq> []" "list_all is_digit ds" "rest \<noteq> []" "list_all key_char rest"
  shows "matches_key_pattern (ds @ ''-'' @ rest)"
proof -
  have d: "\<And>x. x \<in> set ds \<Longrightarrow> is_digit x" using assms(2) by (simp add: list_all_iff)
  have "takeWhile is_digit (ds @ ''-'' @ rest) = ds"
    using d by (simp add: not_digit_hyphen)
  moreover have "dropWhile is_digit (ds @ ''-'' @ rest) = ''-'' @ rest"
    using d by (simp add: not_digit_hyphen)
  ultimately show ?thesis using assms by (simp add: matches_key_pattern_def)
qed

lemma matches_key_pattern_iff: "matches_key_pattern s \<longleftrightarrow> key_pattern_spec s"
proof
  assume m: "matches_key_pattern s"
  then obtain c rest where dw: "dropWhile is_digit s = c # rest"
    by (auto simp add: matches_key_pattern_def split: list.splits)
  with m have c: "c = CHR ''-''" and r: "rest \<noteq> []" "list_all key_char rest"
    and t: "takeWhile is_digit s \<noteq> []"
    by (auto simp add: matches_key_pattern_def)
  have "s = takeWhile is_digit s @ dropWhile is_digit s" by simp
  then have "s = takeWhile is_digit s @ ''-'' @ rest" using dw c by simp
  moreover have "list_all is_digit (takeWhile is_digit s)"
    by (auto simp add: list_all_iff dest: set_takeWhileD)
  ultimately show "key_pattern_spec s"
    unfolding key_pattern_spec_def using t r by blast
next
  assume "key_pattern_spec s"
  then show "matches_key_pattern s"
    unfolding key_pattern_spec_def using matches_key_pattern_append by blast
qed

lemma sanitizedFileName_nonempty: "s \<noteq> [] \<Longrightarrow> sanitizedFileName s \<noteq> []"
  by (simp add: sanitizedFileName_def)

lemma blobName_of_matches:
  assumes "originalFileName \<noteq> []"
  shows "matches_key_pattern (blobName_of t originalFileName)"
  unfolding blobName_of_def
  using string_of_nat_nonempty string_of_nat_digits
    sanitizedFileName_nonempty [OF assms] key_char_sanitizedFileName
  by (rule matches_key_pattern_append)

lemma blobName_of_empty: "\<not> matches_key_pattern (blobName_of t [])"
proof -
  have d: "\<And>x. x \<in> set (string_of_nat t) \<Longrightarrow> is_digit x"
    using string_of_nat_digits [of t] by (simp add: list_all_iff)
  have "dropWhile is_digit (string_of_nat t @ ''-'') = ''-''"
    using d by (simp add: not_digit_hyphen)
  then show ?thesis
    by (simp add: matches_key_pattern_def blobName_of_def sanitizedFileName_def)
qed

lemma blobName_of_length: "length (blobName_of t name) > length name"
  by (simp add: blobName_of_def sanitizedFileName_def)

lemma contentTypes_nonempty: "(k, v) \<in> set contentTypes \<Longrightarrow> v \<noteq> []"
  by (auto simp add: contentTypes_def)

lemma getContentType_with_lookup:
  "getContentType_with ext_of fileName =
     (case map_of contentTypes (toLowerCase (ext_of fileName)) of
        None \<Rightarrow> ''application/octet-stream'' | Some t \<Rightarrow> t)"
  by (auto simp add: getContentType_with_def Let_def split: option.splits
           dest: map_of_SomeD contentTypes_nonempty)


section \<open>Properties of the upload route\<close>

lemma parse_read_only: "BlobSASPermissions_parse ''r'' = Inr (no_permissions\<lparr>read := True\<rparr>)"
  by (simp add: BlobSASPermissions_parse_def)

lemma uploadFileToBlob_world:
  assumes "uploadFileToBlob sv cfg buf name w = (r, w')"
  shows "clock w' = clock w \<and> reads w' = Suc (reads w)"
  using assms
  by (auto simp add: uploadFileToBlob_def Date_now_def record_call_def Let_def
           split: sum.splits)

lemma uploadFileToBlob_Inr:
  assumes "uploadFileToBlob sv cfg buf name w = (Inr key, w')"
  shows "key = blobName_of (clock w (reads w)) name \<and>
     (\<exists>rid. upload sv (containerName cfg) key buf (length buf) (getContentType name) = Inr rid) \<and>
     calls w' = calls w @
       [CreateIfNotExists (containerName cfg),
        UploadBlob (containerName cfg) key buf (length buf) (getContentType name)]"
  using assms
  by (auto simp add: uploadFileToBlob_def Date_now_def record_call_def Let_def
           split: sum.splits)

lemma uploadFileToBlob_Inl:
  assumes "uploadFileToBlob sv cfg buf name w = (Inl m, w')"
  shows "calls w' = calls w @ [CreateIfNotExists (containerName cfg)] \<or>
     calls w' = calls w @
       [CreateIfNotExists (containerName cfg),
        UploadBlob (containerName cfg) (blobName_of (clock w (reads w)) name) buf
          (length buf) (getContentType name)] \<and>
     upload sv (containerName cfg) (blobName_of (clock w (reads w)) name) buf
          (length buf) (getContentType name) = Inl m"
  using assms
  by (auto simp add: uploadFileToBlob_def Date_now_def record_call_def Let_def
           split: sum.splits)

lemma generateUserDelegationSAS_ok:
  assumes "generateUserDelegationSAS sv cfg blobName w = (Inr url, w')"
  shows "\<exists>n key tok.
     sasExpiryMinutes cfg = Some n \<and>
     \<bar>int (clock w (reads w)) - 600000\<bar> \<le> 8640000000000000 \<and>
     \<bar>int (clock w (reads w)) + n * 60000\<bar> \<le> 8640000000000000 \<and>
     getUserDelegationKey sv (int (clock w (reads w)) - 600000)
       (int (clock w (reads w)) + n * 60000) = Inr key \<and>
     generateBlobSASQueryParameters sv
       (sasOptions_of cfg blobName (no_permissions\<lparr>read := True\<rparr>)
          (int (clock w (reads w)) - 600000) (int (clock w (reads w)) + n * 60000))
       key (storageAccountName cfg) = Inr tok \<and>
     url = blobClient_url sv (storageAccountName cfg) (containerName cfg) blobName
             @ ''?'' @ tok \<and>
     calls w' = calls w @
       [GetUserDelegationKey (int (clock w (reads w)) - 600000)
          (int (clock w (reads w)) + n * 60000),
        GenerateBlobSASQueryParameters
          (sasOptions_of cfg blobName (no_permissions\<lparr>read := True\<rparr>)
             (int (clock w (reads w)) - 600000) (int (clock w (reads w)) + n * 60000))
          key (storageAccountName cfg)] \<and>
     clock w' = clock w \<and> reads w' = Suc (reads w)"
  using assms
  by (auto simp add: generateUserDelegationSAS_def Date_now_def record_call_def Let_def
        new_Date_def parse_read_only mult.commute
      split: sum.splits option.splits if_splits)

lemma generateUserDelegationSAS_failed:
  assumes "generateUserDelegationSAS sv cfg blobName w = (Inl m, w')"
  shows "clock w' = clock w \<and> reads w' = Suc (reads w) \<and>
     (calls w' = calls w \<or>
      (\<exists>s e. calls w' = calls w @ [GetUserDelegationKey s e]) \<or>
      (\<exists>s e p k. calls w' = calls w @
          [GetUserDelegationKey s e,
           GenerateBlobSASQueryParameters (sasOptions_of cfg blobName p s e) k
             (storageAccountName cfg)]))"
  using assms
  by (auto simp add: generateUserDelegationSAS_def Date_now_def record_call_def Let_def
        new_Date_def parse_read_only
      split: sum.splits option.splits if_splits)


lemma basename_Nil: "basename [] = []"
  by (simp add: basename_def)

lemma multer_single_Some:
  assumes "multer_single part = Inr (Some file)"
  shows "\<exists>p. part = Some p \<and> originalname file = basename (part_filename p) \<and>
     originalname file \<noteq> [] \<and> buffer file = part_data p \<and>
     length (buffer file) \<le> fileSize"
  using assms
  by (auto simp add: multer_single_def split: option.splits if_splits)

lemma upload_handler_success:
  assumes run: "upload_handler sv cfg (Some file) w = (resp, w')"
    and ok: "status resp = 200"
  defines "t1 \<equiv> clock w (reads w)"
    and "t2 \<equiv> int (clock w (Suc (reads w)))"
    and "t3 \<equiv> int (clock w (Suc (Suc (reads w))))"
  defines "key \<equiv> blobName_of t1 (originalname file)"
  shows "\<exists>n udk tok rid.
     sasExpiryMinutes cfg = Some n \<and>
     upload sv (containerName cfg) key (buffer file) (length (buffer file))
       (getContentType (originalname file)) = Inr rid \<and>
     getUserDelegationKey sv (t2 - 600000) (t2 + n * 60000) = Inr udk \<and>
     generateBlobSASQueryParameters sv
       (sasOptions_of cfg key (no_permissions\<lparr>read := True\<rparr>) (t2 - 600000) (t2 + n * 60000))
       udk (storageAccountName cfg) = Inr tok \<and>
     calls w' = calls w @
       [CreateIfNotExists (containerName cfg),
        UploadBlob (containerName cfg) key (buffer file) (length (buffer file))
          (getContentType (originalname file)),
        GetUserDelegationKey (t2 - 600000) (t2 + n * 60000),
        GenerateBlobSASQueryParameters
          (sasOptions_of cfg key (no_permissions\<lparr>read := True\<rparr>) (t2 - 600000)
             (t2 + n * 60000))
          udk (storageAccountName cfg)] \<and>
     resp =
       \<lparr>status = 200,
        body = JObj [(''success'', JBool True),
                     (''message'', JStr ''File uploaded successfully!''),
                     (''fileName'', JStr (originalname file)),
                     (''blobName'', JStr key),
                     (''sasUrl'', JStr (blobClient_url sv (storageAccountName cfg)
                                          (containerName cfg) key @ ''?'' @ tok)),
                     (''expiresAt'', JIsoDate (t3 + n * 60000)),
                     (''expiresInMinutes'', JNum n)]\<rparr>"
proof -
  obtain r1 w1 where u: "uploadFileToBlob sv cfg (buffer file) (originalname file) w = (r1, w1)"
    by (cases "uploadFileToBlob sv cfg (buffer file) (originalname file) w") blast
  have w1: "clock w1 = clock w" "reads w1 = Suc (reads w)"
    using uploadFileToBlob_world [OF u] by simp_all
  obtain k where r1: "r1 = Inr k"
    using run ok u by (cases r1) (auto simp add: upload_handler_def upload_failed_def)
  have k: "k = key" 
    and up: "\<exists>rid. upload sv (containerName cfg) key (buffer file) (length (buffer file))
               (getContentType (originalname file)) = Inr rid"
    and c1: "calls w1 = calls w @
       [CreateIfNotExists (containerName cfg),
        UploadBlob (containerName cfg) key (buffer file) (length (buffer file))
          (getContentType (originalname file))]"
    using uploadFileToBlob_Inr [OF u [unfolded r1]] by (auto simp add: key_def t1_def)
  obtain r2 w2 where g: "generateUserDelegationSAS sv cfg key w1 = (r2, w2)"
    by (cases "generateUserDelegationSAS sv cfg key w1") blast
  obtain url where r2: "r2 = Inr url"
    using run ok u r1 k g by (cases r2) (auto simp add: upload_handler_def upload_failed_def)
  from generateUserDelegationSAS_ok [OF g [unfolded r2]] w1
  obtain n udk tok where n: "sasExpiryMinutes cfg = Some n"
    and gk: "getUserDelegationKey sv (t2 - 600000) (t2 + n * 60000) = Inr udk"
    and gt: "generateBlobSASQueryParameters sv
       (sasOptions_of cfg key (no_permissions\<lparr>read := True\<rparr>) (t2 - 600000) (t2 + n * 60000))
       udk (storageAccountName cfg) = Inr tok"
    and url: "url = blobClient_url sv (storageAccountName cfg) (containerName cfg) key
                @ ''?'' @ tok"
    and c2: "calls w2 = calls w1 @
       [GetUserDelegationKey (t2 - 600000) (t2 + n * 60000),
        GenerateBlobSASQueryParameters
          (sasOptions_of cfg key (no_permissions\<lparr>read := True\<rparr>) (t2 - 600000)
             (t2 + n * 60000))
          udk (storageAccountName cfg)]"
    and w2: "clock w2 = clock w1" "reads w2 = Suc (reads w1)"
    unfolding t2_def by auto
  have resp: "resp =
       \<lparr>status = 200,
        body = JObj [(''success'', JBool True),
                     (''message'', JStr ''File uploaded successfully!''),
                     (''fileName'', JStr (originalname file)),
                     (''blobName'', JStr key),
                     (''sasUrl'', JStr url),
                     (''expiresAt'', JIsoDate (t3 + n * 60000)),
                     (''expiresInMinutes'', JNum n)]\<rparr>"
    and w': "calls w' = calls w2"
    using run ok u r1 k g r2 n w1 w2
    by (auto simp add: upload_handler_def upload_failed_def Date_now_def new_Date_def
          json_number_def t3_def mult.commute split: if_splits)
  from up obtain rid where "upload sv (containerName cfg) key (buffer file)
      (length (buffer file)) (getContentType (originalname file)) = Inr rid" ..
  with n gk gt c1 c2 w' resp url show ?thesis by simp
qed




lemma post_upload_success:
  assumes run: "post_upload sv cfg part w = (resp, w')"
    and ok: "status resp = 200"
  shows "\<exists>file. multer_single part = Inr (Some file) \<and>
     upload_handler sv cfg (Some file) w = (resp, w')"
proof -
  obtain req_file where m: "multer_single part = Inr req_file"
    using run ok by (cases "multer_single part") (auto simp add: post_upload_def error_middleware_def)
  then have h: "upload_handler sv cfg req_file w = (resp, w')"
    using run by (simp add: post_upload_def)
  then obtain fl where f: "req_file = Some fl"
    using ok by (cases req_file) (auto simp add: upload_handler_def no_file_uploaded_def)
  from m h f show ?thesis by blast
qed

lemma post_upload_no_file:
  assumes "multer_single part = Inr None"
  shows "post_upload sv cfg part w = (no_file_uploaded, w)"
  using assms by (simp add: post_upload_def upload_handler_def)

lemma post_upload_oversize:
  assumes "fileSize < length (part_data p)"
  shows "post_upload sv cfg (Some p) w =
           (if basename (part_filename p) \<noteq> [] then error_middleware ''File too large''
            else if part_filename p = [] \<and> part_mimetype p \<noteq> ''application/octet-stream''
            then error_middleware ''Field value too long''
            else no_file_uploaded, w)"
  using assms
  by (auto simp add: post_upload_def multer_single_def upload_handler_def basename_Nil
        fileSize_def fieldSize_def)

lemma post_upload_accepted:
  assumes "multer_single part = Inr (Some file)"
  shows "post_upload sv cfg part w = upload_handler sv cfg (Some file) w"
  using assms by (simp add: post_upload_def)

lemma upload_handler_status:
  "status (fst (upload_handler sv cfg (Some file) w)) = 200 \<or>
   status (fst (upload_handler sv cfg (Some file) w)) = 500"
  by (auto simp add: upload_handler_def upload_failed_def Let_def
           split: prod.splits sum.splits option.splits)

lemma upload_handler_calls:
  "\<exists>rest. calls (snd (upload_handler sv cfg (Some file) w)) =
     calls (snd (uploadFileToBlob sv cfg (buffer file) (originalname file) w)) @ rest"
proof -
  obtain r1 w1 where up: "uploadFileToBlob sv cfg (buffer file) (originalname file) w = (r1, w1)"
    by (cases "uploadFileToBlob sv cfg (buffer file) (originalname file) w") blast
  show ?thesis
  proof (cases r1)
    case (Inl m)
    then show ?thesis using up by (simp add: upload_handler_def)
  next
    case (Inr k)
    obtain r2 w2 where g: "generateUserDelegationSAS sv cfg k w1 = (r2, w2)"
      by (cases "generateUserDelegationSAS sv cfg k w1") blast
    have w': "calls (snd (upload_handler sv cfg (Some file) w)) = calls w2"
      using up Inr g
      by (cases r2)
         (auto simp add: upload_handler_def Date_now_def split: option.splits)
    have "\<exists>rest. calls w2 = calls w1 @ rest"
    proof (cases r2)
      case (Inl m)
      from generateUserDelegationSAS_failed [OF g [unfolded Inl]] show ?thesis by auto
    next
      case (Inr url)
      from generateUserDelegationSAS_ok [OF g [unfolded Inr]] show ?thesis by auto
    qed
    then show ?thesis using w' up by simp
  qed
qed

lemma upload_handler_starts:
  "\<exists>rest. calls (snd (upload_handler sv cfg (Some file) w)) =
     calls w @ CreateIfNotExists (containerName cfg) # rest"
proof -
  have "\<exists>rest. calls (snd (uploadFileToBlob sv cfg (buffer file) (originalname file) w)) =
     calls w @ CreateIfNotExists (containerName cfg) # rest"
    by (auto simp add: uploadFileToBlob_def Date_now_def record_call_def Let_def
          split: sum.splits)
  with upload_handler_calls [of sv cfg "file" w] show ?thesis by auto
qed

lemma upload_handler_writes:
  assumes "createIfNotExists sv (containerName cfg) = Inr u"
  shows "\<exists>rest. calls (snd (upload_handler sv cfg (Some file) w)) =
     calls w @ CreateIfNotExists (containerName cfg) #
       UploadBlob (containerName cfg) (blobName_of (clock w (reads w)) (originalname file))
         (buffer file) (length (buffer file)) (getContentType (originalname file)) # rest"
proof -
  have "\<exists>rest. calls (snd (uploadFileToBlob sv cfg (buffer file) (originalname file) w)) =
     calls w @ CreateIfNotExists (containerName cfg) #
       UploadBlob (containerName cfg) (blobName_of (clock w (reads w)) (originalname file))
         (buffer file) (length (buffer file)) (getContentType (originalname file)) # rest"
    using assms
    by (auto simp add: uploadFileToBlob_def Date_now_def record_call_def Let_def
          split: sum.splits)
  with upload_handler_calls [of sv cfg "file" w] show ?thesis by auto
qed

text \<open>The calls of one request, in every outcome.\<close>

lemma upload_handler_trace:
  assumes run: "upload_handler sv cfg (Some file) w = (resp, w')"
  defines "key \<equiv> blobName_of (clock w (reads w)) (originalname file)"
  defines "c \<equiv> CreateIfNotExists (containerName cfg)"
    and "u \<equiv> UploadBlob (containerName cfg) key (buffer file) (length (buffer file))
                (getContentType (originalname file))"
  shows "calls w' = calls w @ [c] \<or> calls w' = calls w @ [c, u] \<or>
     acked_write sv key u \<and>
       ((\<exists>s e. calls w' = calls w @ [c, u, GetUserDelegationKey s e]) \<or>
        (\<exists>s e p k. calls w' = calls w @ [c, u, GetUserDelegationKey s e,
            GenerateBlobSASQueryParameters (sasOptions_of cfg key p s e) k
              (storageAccountName cfg)]))"
proof -
  obtain r1 w1 where up: "uploadFileToBlob sv cfg (buffer file) (originalname file) w = (r1, w1)"
    by (cases "uploadFileToBlob sv cfg (buffer file) (originalname file) w") blast
  show ?thesis
  proof (cases r1)
    case (Inl m)
    then have "w' = w1" using run up by (simp add: upload_handler_def)
    then show ?thesis
      using uploadFileToBlob_Inl [OF up [unfolded Inl]] by (auto simp add: c_def u_def key_def)
  next
    case (Inr k)
    note a = uploadFileToBlob_Inr [OF up [unfolded Inr]]
    have k: "k = key" using a by (simp add: key_def)
    have c1: "calls w1 = calls w @ [c, u]" using a k by (simp add: c_def u_def)
    have ack: "acked_write sv key u" using a k by (auto simp add: acked_write_def u_def)
    obtain r2 w2 where g: "generateUserDelegationSAS sv cfg key w1 = (r2, w2)"
      by (cases "generateUserDelegationSAS sv cfg key w1") blast
    have w': "calls w' = calls w2"
      using run up Inr k g
      by (cases r2)
         (auto simp add: upload_handler_def Date_now_def split: option.splits)
    show ?thesis
    proof (cases r2)
      case (Inl m)
      from generateUserDelegationSAS_failed [OF g [unfolded Inl]] c1 w' ack
      show ?thesis by auto
    next
      case (Inr url)
      from generateUserDelegationSAS_ok [OF g [unfolded Inr]] c1 w' ack
      show ?thesis by auto
    qed
  qed
qed




lemma post_upload_trace:
  assumes run: "post_upload sv cfg part w = (resp, w')"
  shows "calls w' = calls w \<or>
    (\<exists>file. multer_single part = Inr (Some file) \<and> originalname file \<noteq> [] \<and>
      (let key = blobName_of (clock w (reads w)) (originalname file);
           c = CreateIfNotExists (containerName cfg);
           u = UploadBlob (containerName cfg) key (buffer file) (length (buffer file))
                 (getContentType (originalname file))
       in calls w' = calls w @ [c] \<or> calls w' = calls w @ [c, u] \<or>
          acked_write sv key u \<and>
            ((\<exists>s e. calls w' = calls w @ [c, u, GetUserDelegationKey s e]) \<or>
             (\<exists>s e pm k. calls w' = calls w @ [c, u, GetUserDelegationKey s e,
                 GenerateBlobSASQueryParameters (sasOptions_of cfg key pm s e) k
                   (storageAccountName cfg)]))))"
proof (cases "multer_single part")
  case (Inl m)
  then show ?thesis using run by (auto simp add: post_upload_def)
next
  case (Inr req_file)
  then have h: "upload_handler sv cfg req_file w = (resp, w')"
    using run by (simp add: post_upload_def)
  show ?thesis
  proof (cases req_file)
    case None
    then show ?thesis using h by (auto simp add: upload_handler_def)
  next
    case (Some fl)
    from multer_single_Some [OF Inr [unfolded Some]]
    have n: "originalname fl \<noteq> []" by blast
    from upload_handler_trace [OF h [unfolded Some]] n Inr Some show ?thesis
      by (simp add: Let_def)
  qed
qed

lemma grant_failure_after_write:
  assumes run: "post_upload sv cfg part w = (resp, w')"
    and m: "multer_single part = Inr (Some file)"
    and up: "uploadFileToBlob sv cfg (buffer file) (originalname file) w = (Inr key, w1)"
    and gf: "generateUserDelegationSAS sv cfg key w1 = (Inl m', w2)"
  shows "resp = upload_failed m' \<and> w' = w2 \<and>
     (\<exists>c u g. calls w' = calls w @ c # u # g \<and> acked_write sv key u \<and>
        list_all is_grant_call g)"
proof -
  have "upload_handler sv cfg (Some file) w = (resp, w')"
    using run post_upload_accepted [OF m] by simp
  then have r: "resp = upload_failed m'" "w' = w2"
    using up gf by (simp_all add: upload_handler_def)
  note a = uploadFileToBlob_Inr [OF up]
  have ack: "acked_write sv key
      (UploadBlob (containerName cfg) key (buffer file) (length (buffer file))
         (getContentType (originalname file)))"
    using a by (auto simp add: acked_write_def)
  from generateUserDelegationSAS_failed [OF gf]
  have "\<exists>g. calls w2 = calls w1 @ g \<and> list_all is_grant_call g"
    by (auto simp add: is_grant_call_def)
  then obtain g where g: "calls w2 = calls w1 @ g" "list_all is_grant_call g" by blast
  have "calls w' = calls w @ CreateIfNotExists (containerName cfg) #
      UploadBlob (containerName cfg) key (buffer file) (length (buffer file))
         (getContentType (originalname file)) # g"
    using r g a by simp
  with r ack g show ?thesis by blast
qed

section \<open>The concrete deployment, evaluated\<close>

lemmas route_defs = post_upload_def multer_single_def upload_handler_def uploadFileToBlob_def
  generateUserDelegationSAS_def sasOptions_of_def Date_now_def record_call_def new_Date_def
  fileSize_def fieldSize_def basename_def is_separator_def
  BlobSASPermissions_parse_def no_permissions_def upload_failed_def
  error_middleware_def no_file_uploaded_def json_number_def invalid_time_value_def

text \<open>What the middleware makes of the parts above.\<close>

lemma multer_single_demo: "multer_single (Some demo_part) = Inr (Some demo_file)"
  by (simp add: multer_single_def basename_def is_separator_def fileSize_def demo_part_def
        demo_file_def)

lemma multer_single_empty: "multer_single (Some empty_part) = Inr (Some empty_file)"
  by (simp add: multer_single_def basename_def is_separator_def fileSize_def empty_part_def
        empty_file_def)

lemma multer_single_nested:
  "multer_single (Some nested_part) =
     Inr (Some \<lparr>originalname = ''b.txt'', mimetype = ''text/plain'', buffer = [104, 105],
                file_size = 2\<rparr>)"
  by (simp add: multer_single_def basename_def is_separator_def fileSize_def nested_part_def)

lemma multer_single_dotdot: "multer_single (Some dotdot_part) = Inr None"
  by (simp add: multer_single_def basename_def is_separator_def dotdot_part_def)

lemma multer_single_long_field:
  "multer_single (Some long_field_part) = Inl ''Field value too long''"
  by (simp add: multer_single_def fieldSize_def long_field_part_def)

lemma demo_blobName:
  "blobName_of 1700000000000 ''my file.PDF'' = ''1700000000000-my_file.PDF''"
  by (simp add: blobName_of_def sanitizedFileName_def sanitize_char_def allowed_char_def
        digit_char_def string_of_nat.simps)

lemma demo_contentType: "getContentType ''my file.PDF'' = ''application/pdf''"
  by code_simp

lemma demo_run:
  "post_upload ok_services demo_config (Some demo_part) demo_world =
     (demo_response, demo_world\<lparr>reads := 3, calls := demo_calls\<rparr>)"
  by (simp add: route_defs ok_services_def demo_config_def demo_world_def demo_part_def
        demo_response_def demo_calls_def demo_options_def demo_blobName demo_contentType
        Let_def)

lemma demo_handler_run:
  "upload_handler ok_services demo_config (Some demo_file) demo_world =
     (demo_response, demo_world\<lparr>reads := 3, calls := demo_calls\<rparr>)"
  using demo_run post_upload_accepted [OF multer_single_demo] by simp

lemma empty_blobName:
  "blobName_of 1700000000000 ''empty.txt'' = ''1700000000000-empty.txt''"
  by (simp add: blobName_of_def sanitizedFileName_def sanitize_char_def allowed_char_def
        digit_char_def string_of_nat.simps)

lemma empty_contentType: "getContentType ''empty.txt'' = ''text/plain''"
  by code_simp

lemma empty_run_calls:
  "calls (snd (post_upload ok_services demo_config (Some empty_part) demo_world)) =
     [CreateIfNotExists ''uploaded-files'',
      UploadBlob ''uploaded-files'' ''1700000000000-empty.txt'' [] 0 ''text/plain'',
      GetUserDelegationKey 1699999400250 1700003600250,
      GenerateBlobSASQueryParameters
        (demo_options\<lparr>sas_blobName := ''1700000000000-empty.txt''\<rparr>) ''key-1'' ''acct'']"
  by (simp add: route_defs ok_services_def demo_config_def demo_world_def empty_part_def
        demo_options_def empty_blobName empty_contentType Let_def)

lemma empty_run_status:
  "status (fst (post_upload ok_services demo_config (Some empty_part) demo_world)) = 200"
  by (simp add: route_defs ok_services_def demo_config_def demo_world_def empty_part_def
        empty_blobName empty_contentType Let_def)

lemma grant_failing_run:
  "post_upload grant_failing_services demo_config (Some demo_part) demo_world =
     (upload_failed ''AuthorizationFailure'',
      demo_world\<lparr>reads := 2, calls := take 3 demo_calls\<rparr>)"
  by (simp add: route_defs grant_failing_services_def ok_services_def demo_config_def
        demo_world_def demo_part_def demo_calls_def demo_blobName demo_contentType Let_def)

lemma demo_loadConfig: "loadConfig demo_env = Some demo_config"
  by (simp add: loadConfig_def demo_env_def demo_config_def env_or_def parseInt_def
        is_white_def is_radix_digit_def digit_value_def lower_char_def radix_value_def)

lemma parseInt_60: "parseInt ''60'' = Some 60"
  by (simp add: parseInt_def is_white_def is_radix_digit_def digit_value_def lower_char_def
        radix_value_def)

lemma loadConfig_default_expiry:
  assumes "loadConfig env = Some cfg" "env_or env ''SAS_TOKEN_EXPIRY_MINUTES'' [] = []"
  shows "sasExpiryMinutes cfg = Some 60"
proof -
  have "env_or env ''SAS_TOKEN_EXPIRY_MINUTES'' ''60'' = ''60''"
    using assms(2) by (auto simp add: env_or_def split: option.splits if_splits)
  then show ?thesis
    using assms(1) by (auto simp add: loadConfig_def Let_def parseInt_60 split: if_splits)
qed

lemma grant_failing_write:
  "uploadFileToBlob grant_failing_services demo_config (buffer demo_file)
       (originalname demo_file) demo_world =
     (Inr ''1700000000000-my_file.PDF'', demo_world\<lparr>reads := 1, calls := take 2 demo_calls\<rparr>)"
  by (simp add: uploadFileToBlob_def Date_now_def record_call_def grant_failing_services_def
        ok_services_def demo_config_def demo_world_def demo_file_def demo_calls_def
        demo_blobName demo_contentType Let_def)

lemma grant_failing_grant:
  "generateUserDelegationSAS grant_failing_services demo_config ''1700000000000-my_file.PDF''
       (demo_world\<lparr>reads := 1, calls := take 2 demo_calls\<rparr>) =
     (Inl ''AuthorizationFailure'', demo_world\<lparr>reads := 2, calls := take 3 demo_calls\<rparr>)"
  by (simp add: generateUserDelegationSAS_def Date_now_def record_call_def new_Date_def
        grant_failing_services_def ok_services_def demo_config_def demo_world_def
        demo_calls_def Let_def)

section \<open>The claims\<close>

subsection \<open>Rejected requests\<close>

text \<open>
  Claim C1, for the payload the handler does reject and for the empty one. When
  \<open>req.file\<close> is not set, as for a request without any part, the answer is status 400
  with the body of \<open>no_file_uploaded\<close>, and the world is returned as it was: no SDK call
  is made, so the store is never written. A file that is present with zero bytes is not
  rejected: the handler calls the container and, when that call succeeds, writes the
  empty buffer under the derived key; its answer is never 400.
\<close>

theorem absent_file_rejected_before_store:
  "upload_handler sv cfg None w = (no_file_uploaded, w) \<and>
   status no_file_uploaded = 400 \<and>
   post_upload sv cfg None w = (no_file_uploaded, w) \<and>
   (multer_single part = Inr None \<longrightarrow> post_upload sv cfg part w = (no_file_uploaded, w)) \<and>
   (buffer file = [] \<longrightarrow>
      status (fst (upload_handler sv cfg (Some file) w)) \<noteq> 400 \<and>
      (\<exists>rest. calls (snd (upload_handler sv cfg (Some file) w)) =
         calls w @ CreateIfNotExists (containerName cfg) # rest) \<and>
      (\<forall>u. createIfNotExists sv (containerName cfg) = Inr u \<longrightarrow>
         (\<exists>rest. calls (snd (upload_handler sv cfg (Some file) w)) =
            calls w @ CreateIfNotExists (containerName cfg) #
              UploadBlob (containerName cfg)
                (blobName_of (clock w (reads w)) (originalname file)) [] 0
                (getContentType (originalname file)) # rest)))"
proof -
  have a: "upload_handler sv cfg None w = (no_file_uploaded, w)"
    by (simp add: upload_handler_def)
  have b: "status no_file_uploaded = 400" by (simp add: no_file_uploaded_def)
  have c: "post_upload sv cfg None w = (no_file_uploaded, w)"
    by (rule post_upload_no_file) (simp add: multer_single_def)
  have d: "multer_single part = Inr None \<longrightarrow> post_upload sv cfg part w = (no_file_uploaded, w)"
    using post_upload_no_file by blast
  have e: "status (fst (upload_handler sv cfg (Some file) w)) \<noteq> 400"
    using upload_handler_status [of sv cfg "file" w] by auto
  have f: "\<exists>rest. calls (snd (upload_handler sv cfg (Some file) w)) =
         calls w @ CreateIfNotExists (containerName cfg) # rest"
    using upload_handler_starts [of sv cfg "file" w] by blast
  have g: "\<exists>rest. calls (snd (upload_handler sv cfg (Some file) w)) =
            calls w @ CreateIfNotExists (containerName cfg) #
              UploadBlob (containerName cfg)
                (blobName_of (clock w (reads w)) (originalname file)) [] 0
                (getContentType (originalname file)) # rest"
    if "buffer file = []" "createIfNotExists sv (containerName cfg) = Inr u" for u
    using upload_handler_writes [OF that(2), of "file" w] that(1) by simp
  from a b c d e f g show ?thesis by blast
qed

theorem absent_file_rejected_before_store_witness:
  "upload_handler ok_services demo_config None demo_world = (no_file_uploaded, demo_world) \<and>
   status no_file_uploaded = 400 \<and> calls demo_world = [] \<and>
   multer_single (Some dotdot_part) = Inr None \<and>
   post_upload ok_services demo_config (Some dotdot_part) demo_world =
     (no_file_uploaded, demo_world) \<and>
   buffer empty_file = [] \<and>
   createIfNotExists ok_services (containerName demo_config) = Inr () \<and>
   status (fst (upload_handler ok_services demo_config (Some empty_file) demo_world)) \<noteq> 400 \<and>
   (\<exists>rest. calls (snd (upload_handler ok_services demo_config (Some empty_file) demo_world)) =
      calls demo_world @ CreateIfNotExists (containerName demo_config) #
        UploadBlob (containerName demo_config)
          (blobName_of (clock demo_world (reads demo_world)) (originalname empty_file)) [] 0
          (getContentType (originalname empty_file)) # rest)"
proof -
  note t = absent_file_rejected_before_store
    [of ok_services demo_config demo_world "Some dotdot_part" empty_file]
  have c0: "calls demo_world = []" by (simp add: demo_world_def)
  have e: "buffer empty_file = []" by (simp add: empty_file_def)
  have k: "createIfNotExists ok_services (containerName demo_config) = Inr ()"
    by (simp add: ok_services_def)
  note a = t [THEN conjunct1]
  note b = t [THEN conjunct2, THEN conjunct1]
  note d = t [THEN conjunct2, THEN conjunct2, THEN conjunct2, THEN conjunct1, rule_format,
      OF multer_single_dotdot]
  note z = t [THEN conjunct2, THEN conjunct2, THEN conjunct2, THEN conjunct2, rule_format, OF e]
  note z1 = z [THEN conjunct1]
  note z3 = z [THEN conjunct2, THEN conjunct2, rule_format, OF k]
  show ?thesis
    by (intro conjI) (rule a b c0 multer_single_dotdot d e k z1 z3)+
qed

text \<open>
  A file part that is present but holds zero bytes passes the test \<open>!req.file\<close>: the
  deployment answers with status 200, and its second SDK call writes the empty buffer.
\<close>

theorem empty_payload_is_written:
  "part_data empty_part = [] \<and>
   status (fst (post_upload ok_services demo_config (Some empty_part) demo_world)) = 200 \<and>
   calls (snd (post_upload ok_services demo_config (Some empty_part) demo_world)) ! 1 =
     UploadBlob ''uploaded-files'' ''1700000000000-empty.txt'' [] 0 ''text/plain''"
proof -
  have "part_data empty_part = []" by (simp add: empty_part_def)
  then show ?thesis by (simp add: empty_run_status empty_run_calls)
qed

text \<open>
  Claim C2, with the status the code answers. A part of more than 100 MiB (104857600
  bytes) leaves the world as it was, so no store write is attempted, and the answer is an
  error with status 500 or 400, never 413. When the file name of the part has a base name
  that is not empty, the middleware raises its size error, and the catch-all error
  handler answers with status 500 and the details \<open>File too large\<close>.
\<close>

theorem oversize_rejected_by_catch_all:
  assumes "fileSize < length (part_data p)"
  shows "fileSize = 104857600 \<and>
         snd (post_upload sv cfg (Some p) w) = w \<and>
         (status (fst (post_upload sv cfg (Some p) w)) = 500 \<or>
          status (fst (post_upload sv cfg (Some p) w)) = 400) \<and>
         (basename (part_filename p) \<noteq> [] \<longrightarrow>
            fst (post_upload sv cfg (Some p) w) = error_middleware ''File too large'' \<and>
            status (fst (post_upload sv cfg (Some p) w)) = 500)"
  using post_upload_oversize [OF assms, of sv cfg w]
  by (simp add: fileSize_def error_middleware_def no_file_uploaded_def)

theorem oversize_rejected_by_catch_all_witness:
  "fileSize < length (part_data oversize_part) \<and>
   basename (part_filename oversize_part) \<noteq> [] \<and>
   snd (post_upload ok_services demo_config (Some oversize_part) demo_world) = demo_world \<and>
   fst (post_upload ok_services demo_config (Some oversize_part) demo_world) =
     error_middleware ''File too large'' \<and>
   status (fst (post_upload ok_services demo_config (Some oversize_part) demo_world)) = 500"
proof -
  have h: "fileSize < length (part_data oversize_part)"
    by (simp add: fileSize_def oversize_part_def)
  have n: "basename (part_filename oversize_part) \<noteq> []"
    by (simp add: oversize_part_def basename_def is_separator_def)
  note t = oversize_rejected_by_catch_all [OF h, of ok_services demo_config demo_world]
  note a = t [THEN conjunct2, THEN conjunct1]
  note b = t [THEN conjunct2, THEN conjunct2, THEN conjunct2, rule_format, OF n]
  show ?thesis
    by (intro conjI) (rule h n a b [THEN conjunct1] b [THEN conjunct2])+
qed

text \<open>
  The status of an oversize upload is 500, not 413: the route has no handler of its own
  for the size error.
\<close>

theorem oversize_status_is_500:
  "fileSize < length (part_data oversize_part) \<and>
   status (fst (post_upload ok_services demo_config (Some oversize_part) demo_world)) = 500"
  by (simp add: post_upload_def multer_single_def basename_def is_separator_def
        oversize_part_def fileSize_def error_middleware_def)


subsection \<open>Keys and content types\<close>

text \<open>
  Claim C4, for the file names that give a matching key: sanitization is idempotent on
  every string (it is a \<open>map\<close>, hence total), and for every file name that is not empty
  the derived key matches \<open>^[0-9]+-[A-Za-z0-9._-]+$\<close>. The upload route never derives
  a key from an empty name, since the middleware hands over no file without a name:
  every key the route writes to the store matches the pattern.
\<close>

theorem sanitize_idempotent_and_key_pattern:
  "sanitizedFileName (sanitizedFileName s) = sanitizedFileName s \<and>
   (originalFileName \<noteq> [] \<longrightarrow> matches_key_pattern (blobName_of timestamp originalFileName)) \<and>
   (UploadBlob container key data len contentType
       \<in> set (calls (snd (post_upload sv cfg part w))) \<longrightarrow>
    UploadBlob container key data len contentType \<in> set (calls w) \<or> matches_key_pattern key)"
proof -
  obtain resp w' where run: "post_upload sv cfg part w = (resp, w')"
    by (cases "post_upload sv cfg part w") blast
  have "UploadBlob container key data len contentType \<in> set (calls w) \<or> matches_key_pattern key"
    if "UploadBlob container key data len contentType \<in> set (calls w')"
    using post_upload_trace [OF run] that
    by (auto simp add: Let_def blobName_of_matches)
  then show ?thesis
    using run by (simp add: sanitizedFileName_idem blobName_of_matches)
qed

theorem sanitize_idempotent_and_key_pattern_witness:
  "sanitizedFileName (sanitizedFileName ''my file.PDF'') = sanitizedFileName ''my file.PDF'' \<and>
   ''my file.PDF'' \<noteq> [] \<and>
   matches_key_pattern (blobName_of 1700000000000 ''my file.PDF'') \<and>
   UploadBlob ''uploaded-files'' ''1700000000000-my_file.PDF'' [37, 80, 68, 70] 4
       ''application/pdf''
     \<in> set (calls (snd (post_upload ok_services demo_config (Some demo_part) demo_world))) \<and>
   UploadBlob ''uploaded-files'' ''1700000000000-my_file.PDF'' [37, 80, 68, 70] 4
       ''application/pdf'' \<notin> set (calls demo_world) \<and>
   matches_key_pattern ''1700000000000-my_file.PDF''"
proof -
  have c: "calls demo_world = []" by (simp add: demo_world_def)
  show ?thesis
    using c sanitize_idempotent_and_key_pattern
      [of "''my file.PDF''" "''my file.PDF''" 1700000000000 "''uploaded-files''"
          "''1700000000000-my_file.PDF''" "[37, 80, 68, 70]" 4 "''application/pdf''"
          ok_services demo_config "Some demo_part" demo_world]
    by (simp add: demo_run demo_calls_def)
qed

text \<open>
  For the empty file name the key is the timestamp and a hyphen, with nothing after the
  hyphen, and the pattern asks for at least one character there.
\<close>

theorem empty_filename_key_mismatch:
  "blobName_of 1700000000000 [] = ''1700000000000-'' \<and>
   \<not> matches_key_pattern ''1700000000000-''"
  by (simp add: blobName_of_def sanitizedFileName_def digit_char_def string_of_nat.simps
        matches_key_pattern_def is_digit_def)


text \<open>
  Claim C5: the key that \<open>uploadFileToBlob\<close> writes under and returns is the clock reading
  in decimal, a hyphen, and the original file name with every character outside
  \<open>[A-Za-z0-9.-]\<close> replaced by an underscore. The function makes one call for the
  container and at most one write, under that key, whatever the store answers: it never
  looks the key up first and never writes a second time.
\<close>

theorem store_key_derivation:
  assumes run: "uploadFileToBlob sv cfg fileBuffer originalFileName w = (r, w')"
  defines "key \<equiv> string_of_nat (clock w (reads w)) @ ''-'' @
                   map (\<lambda>c. if allowed_char c then c else CHR ''_'') originalFileName"
  shows "(\<forall>k. r = Inr k \<longrightarrow> k = key) \<and>
     (calls w' = calls w @ [CreateIfNotExists (containerName cfg)] \<or>
      calls w' = calls w @
        [CreateIfNotExists (containerName cfg),
         UploadBlob (containerName cfg) key fileBuffer (length fileBuffer)
           (getContentType originalFileName)])"
proof -
  have key: "key = blobName_of (clock w (reads w)) originalFileName"
    by (simp add: key_def blobName_of_def sanitizedFileName_def sanitize_char_def)
  show ?thesis
  proof (cases r)
    case (Inl m)
    then show ?thesis using uploadFileToBlob_Inl [OF run [unfolded Inl]] key by auto
  next
    case (Inr k)
    then show ?thesis using uploadFileToBlob_Inr [OF run [unfolded Inr]] key by auto
  qed
qed

theorem store_key_derivation_witness:
  "uploadFileToBlob ok_services demo_config [37, 80, 68, 70] ''my file.PDF'' demo_world =
     (Inr ''1700000000000-my_file.PDF'', demo_world\<lparr>reads := 1, calls := take 2 demo_calls\<rparr>) \<and>
   ''1700000000000-my_file.PDF'' =
     string_of_nat (clock demo_world (reads demo_world)) @ ''-'' @
       map (\<lambda>c. if allowed_char c then c else CHR ''_'') ''my file.PDF''"
proof -
  have run: "uploadFileToBlob ok_services demo_config [37, 80, 68, 70] ''my file.PDF'' demo_world =
     (Inr ''1700000000000-my_file.PDF'', demo_world\<lparr>reads := 1, calls := take 2 demo_calls\<rparr>)"
    by (simp add: uploadFileToBlob_def Date_now_def record_call_def ok_services_def
          demo_config_def demo_world_def demo_calls_def demo_blobName demo_contentType Let_def)
  show ?thesis
    using run store_key_derivation [OF run] by simp
qed

text \<open>
  Claim C8: the content type is the entry of the static table \<open>contentTypes\<close> for the
  lower-cased extension of the file name, and \<open>application/octet-stream\<close> when the table
  has no such entry. The second part holds for any function that extracts the extension.
\<close>

theorem content_type_from_static_table:
  "getContentType fileName =
     (case map_of contentTypes (toLowerCase (extname fileName)) of
        None \<Rightarrow> ''application/octet-stream'' | Some t \<Rightarrow> t) \<and>
   (toLowerCase (ext_of fileName) \<notin> fst ` set contentTypes \<longrightarrow>
      getContentType_with ext_of fileName = ''application/octet-stream'')"
proof -
  have "map_of contentTypes (toLowerCase (ext_of fileName)) = None"
    if "toLowerCase (ext_of fileName) \<notin> fst ` set contentTypes"
    using that by (simp add: map_of_eq_None_iff)
  then show ?thesis
    by (auto simp add: getContentType_def getContentType_with_lookup)
qed

lemma extname_archive: "extname ''backup.tar.GZ'' = ''.GZ''"
  by code_simp

theorem content_type_from_static_table_witness:
  "toLowerCase (extname ''backup.tar.GZ'') \<notin> fst ` set contentTypes \<and>
   getContentType_with extname ''backup.tar.GZ'' = ''application/octet-stream'' \<and>
   getContentType ''my file.PDF'' = ''application/pdf''"
proof -
  have h: "toLowerCase (extname ''backup.tar.GZ'') \<notin> fst ` set contentTypes"
    by (simp add: extname_archive toLowerCase_def lower_char_def contentTypes_def)
  show ?thesis
    using h content_type_from_static_table [of "''backup.tar.GZ''" extname]
    by (simp add: demo_contentType)
qed

subsection \<open>The health route\<close>

text \<open>
  Claim C9: \<open>GET /health\<close> answers with status 200 and a body whose fields are the
  configured account name, container name and expiry minutes (as JSON writes the number),
  and returns the world as it was: it makes no SDK call and takes no service as an
  argument, so its answer cannot depend on the store.
\<close>

theorem health_reports_configuration:
  "status (fst (health cfg w)) = 200 \<and>
   json_field ''storageAccount'' (body (fst (health cfg w))) = Some (JStr (storageAccountName cfg)) \<and>
   json_field ''container'' (body (fst (health cfg w))) = Some (JStr (containerName cfg)) \<and>
   json_field ''sasExpiryMinutes'' (body (fst (health cfg w))) =
     Some (json_number (sasExpiryMinutes cfg)) \<and>
   snd (health cfg w) = w"
  by (simp add: health_def json_field_def)

theorem health_reports_configuration_witness:
  "loadConfig demo_env = Some demo_config \<and>
   status (fst (health demo_config demo_world)) = 200 \<and>
   json_field ''storageAccount'' (body (fst (health demo_config demo_world))) = Some (JStr ''acct'') \<and>
   json_field ''container'' (body (fst (health demo_config demo_world))) =
     Some (JStr ''uploaded-files'') \<and>
   json_field ''sasExpiryMinutes'' (body (fst (health demo_config demo_world))) = Some (JNum 60) \<and>
   calls (snd (health demo_config demo_world)) = []"
  using health_reports_configuration [of demo_config demo_world]
  by (simp add: demo_loadConfig demo_config_def demo_world_def json_number_def)

subsection \<open>Successful uploads\<close>

text \<open>
  Claim C10: in the response of a successful upload, \<open>fileName\<close> is the file name the
  handler received, \<open>req.file.originalname\<close>, unchanged, and \<open>blobName\<close> is the
  timestamp-prefixed sanitized key; the two fields differ whenever that file name has a
  character outside \<open>[A-Za-z0-9.-]\<close>. The statement is about the handler, for any
  \<open>req.file\<close>: what the middleware makes of the name stated in the request is not part
  of it.
\<close>

theorem response_names_file_and_blob:
  assumes run: "upload_handler sv cfg (Some file) w = (resp, w')"
    and ok: "status resp = 200"
  shows "json_field ''fileName'' (body resp) = Some (JStr (originalname file)) \<and>
     json_field ''blobName'' (body resp) =
       Some (JStr (blobName_of (clock w (reads w)) (originalname file))) \<and>
     ((\<exists>c\<in>set (originalname file). \<not> allowed_char c) \<longrightarrow>
        json_field ''fileName'' (body resp) \<noteq> json_field ''blobName'' (body resp))"
proof -
  from upload_handler_success [OF run ok]
  have f: "json_field ''fileName'' (body resp) = Some (JStr (originalname file))"
    and b: "json_field ''blobName'' (body resp) =
       Some (JStr (blobName_of (clock w (reads w)) (originalname file)))"
    by (auto simp add: json_field_def)
  have "originalname file \<noteq> blobName_of (clock w (reads w)) (originalname file)"
    using blobName_of_length [of "originalname file" "clock w (reads w)"] by auto
  with f b show ?thesis by simp
qed

theorem response_names_file_and_blob_witness:
  "upload_handler ok_services demo_config (Some demo_file) demo_world =
     (demo_response, demo_world\<lparr>reads := 3, calls := demo_calls\<rparr>) \<and>
   status demo_response = 200 \<and>
   (\<exists>c\<in>set (originalname demo_file). \<not> allowed_char c) \<and>
   json_field ''fileName'' (body demo_response) = Some (JStr ''my file.PDF'') \<and>
   json_field ''blobName'' (body demo_response) = Some (JStr ''1700000000000-my_file.PDF'') \<and>
   json_field ''fileName'' (body demo_response) \<noteq> json_field ''blobName'' (body demo_response)"
proof -
  have ok: "status demo_response = 200" by (simp add: demo_response_def)
  have n: "originalname demo_file = ''my file.PDF''" by (simp add: demo_file_def)
  have bad: "\<exists>c\<in>set (originalname demo_file). \<not> allowed_char c"
    by (simp add: n allowed_char_def)
  have t: "clock demo_world (reads demo_world) = 1700000000000" by (simp add: demo_world_def)
  note r = response_names_file_and_blob [OF demo_handler_run ok]
  have f: "json_field ''fileName'' (body demo_response) = Some (JStr ''my file.PDF'')"
    using r [THEN conjunct1] n by simp
  have b: "json_field ''blobName'' (body demo_response) =
      Some (JStr ''1700000000000-my_file.PDF'')"
    using r [THEN conjunct2, THEN conjunct1] n t by (simp add: demo_blobName)
  note d = r [THEN conjunct2, THEN conjunct2, rule_format, OF bad]
  show ?thesis
    by (intro conjI) (rule demo_handler_run ok bad f b d)+
qed

text \<open>
  Claim C3, with the clock readings the code takes. One upload reads the clock three
  times: for the key, for the grant, and for the response. For every successful upload
  the validity window of the grant starts exactly 10 minutes before the second reading
  and ends exactly \<open>n\<close> minutes after it, where \<open>n\<close> is the configured expiry (60 when
  the environment leaves it unset or empty); the \<open>expiresAt\<close> of the response is \<open>n\<close>
  minutes after the third reading, which is taken once the grant has been issued. The
  two expiry instants are equal exactly when these two readings are.
\<close>

theorem grant_window_and_returned_expiry:
  assumes run: "post_upload sv cfg part w = (resp, w')"
    and ok: "status resp = 200"
  defines "t2 \<equiv> int (clock w (Suc (reads w)))"
    and "t3 \<equiv> int (clock w (Suc (Suc (reads w))))"
  shows "\<exists>n c u opts udk.
     sasExpiryMinutes cfg = Some n \<and>
     (\<forall>env. loadConfig env = Some cfg \<longrightarrow>
            env_or env ''SAS_TOKEN_EXPIRY_MINUTES'' [] = [] \<longrightarrow> n = 60) \<and>
     calls w' = calls w @
       [c, u, GetUserDelegationKey (t2 - 10 * 60 * 1000) (t2 + n * 60 * 1000),
        GenerateBlobSASQueryParameters opts udk (storageAccountName cfg)] \<and>
     startsOn opts = t2 - 10 * 60 * 1000 \<and>
     expiresOn opts = t2 + n * 60 * 1000 \<and>
     json_field ''expiresAt'' (body resp) = Some (JIsoDate (t3 + n * 60 * 1000)) \<and>
     json_field ''expiresInMinutes'' (body resp) = Some (JNum n)"
proof -
  from post_upload_success [OF run ok]
  obtain fl where h: "upload_handler sv cfg (Some fl) w = (resp, w')" by blast
  from upload_handler_success [OF h ok]
  obtain n udk tok where n: "sasExpiryMinutes cfg = Some n"
    and c: "calls w' = calls w @
       [CreateIfNotExists (containerName cfg),
        UploadBlob (containerName cfg) (blobName_of (clock w (reads w)) (originalname fl))
          (buffer fl) (length (buffer fl)) (getContentType (originalname fl)),
        GetUserDelegationKey (t2 - 600000) (t2 + n * 60000),
        GenerateBlobSASQueryParameters
          (sasOptions_of cfg (blobName_of (clock w (reads w)) (originalname fl))
             (no_permissions\<lparr>read := True\<rparr>) (t2 - 600000) (t2 + n * 60000))
          udk (storageAccountName cfg)]"
    and r: "resp =
       \<lparr>status = 200,
        body = JObj [(''success'', JBool True),
                     (''message'', JStr ''File uploaded successfully!''),
                     (''fileName'', JStr (originalname fl)),
                     (''blobName'', JStr (blobName_of (clock w (reads w)) (originalname fl))),
                     (''sasUrl'', JStr (blobClient_url sv (storageAccountName cfg)
                        (containerName cfg)
                        (blobName_of (clock w (reads w)) (originalname fl)) @ ''?'' @ tok)),
                     (''expiresAt'', JIsoDate (t3 + n * 60000)),
                     (''expiresInMinutes'', JNum n)]\<rparr>"
    unfolding t2_def t3_def by blast
  have d: "\<forall>env. loadConfig env = Some cfg \<longrightarrow>
            env_or env ''SAS_TOKEN_EXPIRY_MINUTES'' [] = [] \<longrightarrow> n = 60"
    using loadConfig_default_expiry n by fastforce
  have e: "json_field ''expiresAt'' (body resp) = Some (JIsoDate (t3 + n * 60 * 1000))"
    and m: "json_field ''expiresInMinutes'' (body resp) = Some (JNum n)"
    using r by (simp_all add: json_field_def)
  have s: "startsOn (sasOptions_of cfg (blobName_of (clock w (reads w)) (originalname fl))
             (no_permissions\<lparr>read := True\<rparr>) (t2 - 600000) (t2 + n * 60000))
           = t2 - 10 * 60 * 1000"
    and x: "expiresOn (sasOptions_of cfg (blobName_of (clock w (reads w)) (originalname fl))
             (no_permissions\<lparr>read := True\<rparr>) (t2 - 600000) (t2 + n * 60000))
           = t2 + n * 60 * 1000"
    by (simp_all add: sasOptions_of_def)
  have c': "calls w' = calls w @
       [CreateIfNotExists (containerName cfg),
        UploadBlob (containerName cfg) (blobName_of (clock w (reads w)) (originalname fl))
          (buffer fl) (length (buffer fl)) (getContentType (originalname fl)),
        GetUserDelegationKey (t2 - 10 * 60 * 1000) (t2 + n * 60 * 1000),
        GenerateBlobSASQueryParameters
          (sasOptions_of cfg (blobName_of (clock w (reads w)) (originalname fl))
             (no_permissions\<lparr>read := True\<rparr>) (t2 - 600000) (t2 + n * 60000))
          udk (storageAccountName cfg)]"
    using c by simp
  from n d c' s x e m show ?thesis by blast
qed

theorem grant_window_and_returned_expiry_witness:
  "post_upload ok_services demo_config (Some demo_part) demo_world =
     (demo_response, demo_world\<lparr>reads := 3, calls := demo_calls\<rparr>) \<and>
   status demo_response = 200 \<and>
   loadConfig demo_env = Some demo_config \<and>
   env_or demo_env ''SAS_TOKEN_EXPIRY_MINUTES'' [] = [] \<and>
   sasExpiryMinutes demo_config = Some 60 \<and>
   clock demo_world (Suc (reads demo_world)) = 1700000000250 \<and>
   demo_calls ! 2 =
     GetUserDelegationKey (1700000000250 - 10 * 60 * 1000) (1700000000250 + 60 * 60 * 1000) \<and>
   clock demo_world (Suc (Suc (reads demo_world))) = 1700000000500 \<and>
   json_field ''expiresAt'' (body demo_response) =
     Some (JIsoDate (1700000000500 + 60 * 60 * 1000))"
proof -
  have ok: "status demo_response = 200" by (simp add: demo_response_def)
  have e: "env_or demo_env ''SAS_TOKEN_EXPIRY_MINUTES'' [] = []"
    by (simp add: env_or_def demo_env_def)
  have t2: "clock demo_world (Suc (reads demo_world)) = 1700000000250"
    and t3: "clock demo_world (Suc (Suc (reads demo_world))) = 1700000000500"
    and c0: "calls demo_world = []"
    by (simp_all add: demo_world_def)
  from grant_window_and_returned_expiry [OF demo_run ok]
  obtain n c u opts udk where n: "sasExpiryMinutes demo_config = Some n"
    and d: "\<forall>env. loadConfig env = Some demo_config \<longrightarrow>
            env_or env ''SAS_TOKEN_EXPIRY_MINUTES'' [] = [] \<longrightarrow> n = 60"
    and c: "calls (demo_world\<lparr>reads := 3, calls := demo_calls\<rparr>) = calls demo_world @
       [c, u,
        GetUserDelegationKey (int (clock demo_world (Suc (reads demo_world))) - 10 * 60 * 1000)
          (int (clock demo_world (Suc (reads demo_world))) + n * 60 * 1000),
        GenerateBlobSASQueryParameters opts udk (storageAccountName demo_config)]"
    and x: "json_field ''expiresAt'' (body demo_response) =
       Some (JIsoDate (int (clock demo_world (Suc (Suc (reads demo_world)))) + n * 60 * 1000))"
    by blast
  have n60: "n = 60" using d demo_loadConfig e by blast
  have m: "sasExpiryMinutes demo_config = Some 60" using n n60 by simp
  have g: "demo_calls ! 2 =
     GetUserDelegationKey (1700000000250 - 10 * 60 * 1000) (1700000000250 + 60 * 60 * 1000)"
  proof -
    have dc: "demo_calls =
       [c, u,
        GetUserDelegationKey (int (clock demo_world (Suc (reads demo_world))) - 10 * 60 * 1000)
          (int (clock demo_world (Suc (reads demo_world))) + n * 60 * 1000),
        GenerateBlobSASQueryParameters opts udk (storageAccountName demo_config)]"
      using c c0 by simp
    show ?thesis by (subst dc) (simp add: t2 n60)
  qed
  have x': "json_field ''expiresAt'' (body demo_response) =
     Some (JIsoDate (1700000000500 + 60 * 60 * 1000))"
    using x t3 n60 by simp
  show ?thesis
    by (intro conjI) (rule demo_run ok demo_loadConfig e m t2 g t3 x')+
qed

text \<open>
  With a clock that advances by 250 ms between readings, the grant expires at
  1700003600250 and the response announces 1700003600500: no single request time
  accounts for both.
\<close>

theorem returned_expiry_differs_from_grant_expiry:
  "status (fst (post_upload ok_services demo_config (Some demo_part) demo_world)) = 200 \<and>
   calls (snd (post_upload ok_services demo_config (Some demo_part) demo_world)) ! 3 =
     GenerateBlobSASQueryParameters demo_options ''key-1'' ''acct'' \<and>
   expiresOn demo_options = 1700003600250 \<and>
   json_field ''expiresAt''
       (body (fst (post_upload ok_services demo_config (Some demo_part) demo_world))) =
     Some (JIsoDate 1700003600500)"
  by (simp add: demo_run demo_response_def demo_calls_def demo_options_def json_field_def)

text \<open>
  Claim C7: for every successful upload the returned URL is the location of the uploaded
  blob followed by the query string signed for the options of the last SDK call. These
  options carry the read permission and no other, name the container and the very key
  that was written, allow HTTPS only, and bound the validity from 10 minutes before to
  exactly the configured number of minutes after the clock reading of the grant.
\<close>

theorem grant_is_read_only_for_uploaded_object:
  assumes run: "post_upload sv cfg part w = (resp, w')"
    and ok: "status resp = 200"
  defines "t1 \<equiv> clock w (reads w)"
    and "t2 \<equiv> int (clock w (Suc (reads w)))"
  shows "\<exists>file n key rid opts udk tok.
     multer_single part = Inr (Some file) \<and>
     key = blobName_of t1 (originalname file) \<and>
     sasExpiryMinutes cfg = Some n \<and>
     upload sv (containerName cfg) key (buffer file) (length (buffer file))
       (getContentType (originalname file)) = Inr rid \<and>
     last (calls w') = GenerateBlobSASQueryParameters opts udk (storageAccountName cfg) \<and>
     generateBlobSASQueryParameters sv opts udk (storageAccountName cfg) = Inr tok \<and>
     json_field ''sasUrl'' (body resp) =
       Some (JStr (blobClient_url sv (storageAccountName cfg) (containerName cfg) key
                     @ ''?'' @ tok)) \<and>
     permissions opts =
       \<lparr>read = True, add = False, create = False, write_perm = False, delete = False,
        deleteVersion = False, tag = False, move = False, execute = False,
        setImmutabilityPolicy = False, permanentDelete = False\<rparr> \<and>
     sas_containerName opts = containerName cfg \<and>
     sas_blobName opts = key \<and>
     protocol opts = Https \<and>
     startsOn opts = t2 - 10 * 60 * 1000 \<and>
     expiresOn opts = t2 + n * 60 * 1000"
proof -
  from post_upload_success [OF run ok]
  obtain fl where m: "multer_single part = Inr (Some fl)"
    and h: "upload_handler sv cfg (Some fl) w = (resp, w')" by blast
  define key where "key = blobName_of t1 (originalname fl)"
  define opts where "opts = (\<lambda>n. sasOptions_of cfg key (no_permissions\<lparr>read := True\<rparr>)
     (t2 - 600000) (t2 + n * 60000))"
  from upload_handler_success [OF h ok]
  obtain n udk tok rid where n: "sasExpiryMinutes cfg = Some n"
    and u: "upload sv (containerName cfg) key (buffer fl) (length (buffer fl))
       (getContentType (originalname fl)) = Inr rid"
    and g: "generateBlobSASQueryParameters sv (opts n) udk (storageAccountName cfg) = Inr tok"
    and c: "calls w' = calls w @
       [CreateIfNotExists (containerName cfg),
        UploadBlob (containerName cfg) key (buffer fl) (length (buffer fl))
          (getContentType (originalname fl)),
        GetUserDelegationKey (t2 - 600000) (t2 + n * 60000),
        GenerateBlobSASQueryParameters (opts n) udk (storageAccountName cfg)]"
    and r: "resp =
       \<lparr>status = 200,
        body = JObj [(''success'', JBool True),
                     (''message'', JStr ''File uploaded successfully!''),
                     (''fileName'', JStr (originalname fl)),
                     (''blobName'', JStr key),
                     (''sasUrl'', JStr (blobClient_url sv (storageAccountName cfg)
                        (containerName cfg) key @ ''?'' @ tok)),
                     (''expiresAt'', JIsoDate (int (clock w (Suc (Suc (reads w)))) + n * 60000)),
                     (''expiresInMinutes'', JNum n)]\<rparr>"
    unfolding key_def opts_def t1_def t2_def by auto
  have l: "last (calls w') = GenerateBlobSASQueryParameters (opts n) udk (storageAccountName cfg)"
    using c by simp
  have s: "json_field ''sasUrl'' (body resp) =
       Some (JStr (blobClient_url sv (storageAccountName cfg) (containerName cfg) key
                     @ ''?'' @ tok))"
    using r by (simp add: json_field_def)
  have o: "permissions (opts n) =
       \<lparr>read = True, add = False, create = False, write_perm = False, delete = False,
        deleteVersion = False, tag = False, move = False, execute = False,
        setImmutabilityPolicy = False, permanentDelete = False\<rparr>"
      "sas_containerName (opts n) = containerName cfg"
      "sas_blobName (opts n) = key"
      "protocol (opts n) = Https"
      "startsOn (opts n) = t2 - 10 * 60 * 1000"
      "expiresOn (opts n) = t2 + n * 60 * 1000"
    by (simp_all add: opts_def sasOptions_of_def no_permissions_def)
  from m key_def n u l g s o show ?thesis by blast
qed

theorem grant_is_read_only_for_uploaded_object_witness:
  "post_upload ok_services demo_config (Some demo_part) demo_world =
     (demo_response, demo_world\<lparr>reads := 3, calls := demo_calls\<rparr>) \<and>
   status demo_response = 200 \<and>
   multer_single (Some demo_part) = Inr (Some demo_file) \<and>
   last demo_calls = GenerateBlobSASQueryParameters demo_options ''key-1'' ''acct'' \<and>
   permissions demo_options =
     \<lparr>read = True, add = False, create = False, write_perm = False, delete = False,
      deleteVersion = False, tag = False, move = False, execute = False,
      setImmutabilityPolicy = False, permanentDelete = False\<rparr> \<and>
   sas_blobName demo_options = ''1700000000000-my_file.PDF'' \<and>
   expiresOn demo_options = 1700000000250 + 60 * 60 * 1000"
proof -
  have ok: "status demo_response = 200" by (simp add: demo_response_def)
  have l: "last demo_calls = GenerateBlobSASQueryParameters demo_options ''key-1'' ''acct''"
    by (simp add: demo_calls_def)
  have t: "clock demo_world (reads demo_world) = 1700000000000"
    "int (clock demo_world (Suc (reads demo_world))) = 1700000000250"
    by (simp_all add: demo_world_def)
  have m: "sasExpiryMinutes demo_config = Some 60" by (simp add: demo_config_def)
  from grant_is_read_only_for_uploaded_object [OF demo_run ok]
  obtain fl n opts udk where p: "multer_single (Some demo_part) = Inr (Some fl)"
    and n: "sasExpiryMinutes demo_config = Some n"
    and g: "last (calls (demo_world\<lparr>reads := 3, calls := demo_calls\<rparr>)) =
        GenerateBlobSASQueryParameters opts udk (storageAccountName demo_config)"
    and o: "permissions opts =
     \<lparr>read = True, add = False, create = False, write_perm = False, delete = False,
      deleteVersion = False, tag = False, move = False, execute = False,
      setImmutabilityPolicy = False, permanentDelete = False\<rparr>"
     "sas_blobName opts = blobName_of (clock demo_world (reads demo_world)) (originalname fl)"
     "expiresOn opts = int (clock demo_world (Suc (reads demo_world))) + n * 60 * 1000"
    by blast
  have opts: "opts = demo_options" using g l by simp
  have n60: "n = 60" using n m by simp
  have pn: "originalname fl = ''my file.PDF''"
    using p multer_single_demo by (auto simp add: demo_file_def)
  have o1: "permissions demo_options =
     \<lparr>read = True, add = False, create = False, write_perm = False, delete = False,
      deleteVersion = False, tag = False, move = False, execute = False,
      setImmutabilityPolicy = False, permanentDelete = False\<rparr>"
    using o(1) opts by simp
  have o2: "sas_blobName demo_options = ''1700000000000-my_file.PDF''"
    using o(2) opts pn t(1) by (simp add: demo_blobName)
  have o3: "expiresOn demo_options = 1700000000250 + 60 * 60 * 1000"
    using o(3) opts n60 t(2) by simp
  show ?thesis
    by (intro conjI) (rule demo_run ok multer_single_demo l o1 o2 o3)+
qed

text \<open>
  Claim C6: in every run of the upload route, if any call of the grant issuance is made,
  then before the first of them the write of some key was made and acknowledged, and
  every signing call names that key. If the grant issuance fails after an acknowledged
  write, the route answers with status 500 and the details of the failure, and the calls
  of the request are the container call, the write, and calls of the grant issuance
  only: nothing is sent to the store after the failure, so the written blob stays.
\<close>

theorem write_acknowledged_before_grant:
  assumes run: "post_upload sv cfg part w = (resp, w')"
  shows "\<exists>new. calls w' = calls w @ new \<and>
     ((\<exists>x\<in>set new. is_grant_call x) \<longrightarrow>
        (\<exists>key. (\<exists>u\<in>set (takeWhile (\<lambda>x. \<not> is_grant_call x) new). acked_write sv key u) \<and>
               (\<forall>x\<in>set new. signs_key key x))) \<and>
     (\<forall>file key w1 m w2.
        multer_single part = Inr (Some file) \<and>
        uploadFileToBlob sv cfg (buffer file) (originalname file) w = (Inr key, w1) \<and>
        generateUserDelegationSAS sv cfg key w1 = (Inl m, w2) \<longrightarrow>
        resp = upload_failed m \<and> status resp = 500 \<and> w' = w2 \<and>
        (\<exists>c u g. new = c # u # g \<and> acked_write sv key u \<and> list_all is_grant_call g))"
proof -
  have shape: "\<exists>new. calls w' = calls w @ new \<and>
     ((\<exists>x\<in>set new. is_grant_call x) \<longrightarrow>
        (\<exists>key. (\<exists>u\<in>set (takeWhile (\<lambda>x. \<not> is_grant_call x) new). acked_write sv key u) \<and>
               (\<forall>x\<in>set new. signs_key key x)))"
    using post_upload_trace [OF run]
    by (elim disjE exE conjE)
       (auto simp add: Let_def is_grant_call_def signs_key_def acked_write_def
          sasOptions_of_def)
  then obtain new where new: "calls w' = calls w @ new"
    and a: "(\<exists>x\<in>set new. is_grant_call x) \<longrightarrow>
        (\<exists>key. (\<exists>u\<in>set (takeWhile (\<lambda>x. \<not> is_grant_call x) new). acked_write sv key u) \<and>
               (\<forall>x\<in>set new. signs_key key x))"
    by blast
  have b: "resp = upload_failed m \<and> status resp = 500 \<and> w' = w2 \<and>
        (\<exists>c u g. new = c # u # g \<and> acked_write sv key u \<and> list_all is_grant_call g)"
    if "multer_single part = Inr (Some fl) \<and>
        uploadFileToBlob sv cfg (buffer fl) (originalname fl) w = (Inr key, w1) \<and>
        generateUserDelegationSAS sv cfg key w1 = (Inl m, w2)"
    for fl key w1 m w2
  proof -
    from grant_failure_after_write [OF run, of fl key w1 m w2] that
    obtain c u g where r: "resp = upload_failed m" "w' = w2"
      and c: "calls w' = calls w @ c # u # g" "acked_write sv key u" "list_all is_grant_call g"
      by blast
    from c(1) new have "new = c # u # g" by simp
    with r c show ?thesis by (simp add: upload_failed_def)
  qed
  from new a b show ?thesis by blast
qed

theorem write_acknowledged_before_grant_witness:
  "post_upload grant_failing_services demo_config (Some demo_part) demo_world =
     (upload_failed ''AuthorizationFailure'',
      demo_world\<lparr>reads := 2, calls := take 3 demo_calls\<rparr>) \<and>
   (\<exists>x\<in>set (take 3 demo_calls). is_grant_call x) \<and>
   multer_single (Some demo_part) = Inr (Some demo_file) \<and>
   uploadFileToBlob grant_failing_services demo_config (buffer demo_file)
       (originalname demo_file) demo_world =
     (Inr ''1700000000000-my_file.PDF'', demo_world\<lparr>reads := 1, calls := take 2 demo_calls\<rparr>) \<and>
   generateUserDelegationSAS grant_failing_services demo_config ''1700000000000-my_file.PDF''
       (demo_world\<lparr>reads := 1, calls := take 2 demo_calls\<rparr>) =
     (Inl ''AuthorizationFailure'', demo_world\<lparr>reads := 2, calls := take 3 demo_calls\<rparr>) \<and>
   status (upload_failed ''AuthorizationFailure'') = 500 \<and>
   (\<exists>key. acked_write grant_failing_services key (demo_calls ! 1)) \<and>
   list_all is_grant_call (drop 2 (take 3 demo_calls))"
proof -
  have c0: "calls demo_world = []" by (simp add: demo_world_def)
  have gc: "\<exists>x\<in>set (take 3 demo_calls). is_grant_call x"
    by (simp add: demo_calls_def is_grant_call_def)
  from write_acknowledged_before_grant [OF grant_failing_run]
  obtain new where all:
    "calls (demo_world\<lparr>reads := 2, calls := take 3 demo_calls\<rparr>) = calls demo_world @ new \<and>
     ((\<exists>x\<in>set new. is_grant_call x) \<longrightarrow>
        (\<exists>key. (\<exists>u\<in>set (takeWhile (\<lambda>x. \<not> is_grant_call x) new).
                  acked_write grant_failing_services key u) \<and>
               (\<forall>x\<in>set new. signs_key key x))) \<and>
     (\<forall>file key w1 m w2.
        multer_single (Some demo_part) = Inr (Some file) \<and>
        uploadFileToBlob grant_failing_services demo_config (buffer file) (originalname file)
          demo_world = (Inr key, w1) \<and>
        generateUserDelegationSAS grant_failing_services demo_config key w1 = (Inl m, w2) \<longrightarrow>
        upload_failed ''AuthorizationFailure'' = upload_failed m \<and>
        status (upload_failed ''AuthorizationFailure'') = 500 \<and>
        demo_world\<lparr>reads := 2, calls := take 3 demo_calls\<rparr> = w2 \<and>
        (\<exists>c u g. new = c # u # g \<and> acked_write grant_failing_services key u \<and>
           list_all is_grant_call g))" ..
  note new = all [THEN conjunct1]
  note b = all [THEN conjunct2, THEN conjunct2, rule_format,
      of demo_file "''1700000000000-my_file.PDF''"
         "demo_world\<lparr>reads := 1, calls := take 2 demo_calls\<rparr>" "''AuthorizationFailure''"
         "demo_world\<lparr>reads := 2, calls := take 3 demo_calls\<rparr>"]
  have n: "new = take 3 demo_calls" using new c0 by simp
  from b multer_single_demo grant_failing_write grant_failing_grant
  have s: "status (upload_failed ''AuthorizationFailure'') = 500"
    and g: "\<exists>c u g. new = c # u # g \<and>
           acked_write grant_failing_services ''1700000000000-my_file.PDF'' u \<and>
           list_all is_grant_call g"
    by blast+
  from g n have k: "\<exists>key. acked_write grant_failing_services key (demo_calls ! 1)"
    and l: "list_all is_grant_call (drop 2 (take 3 demo_calls))"
    by (auto simp add: demo_calls_def)
  show ?thesis
    by (intro conjI)
       (rule grant_failing_run gc multer_single_demo grant_failing_write grant_failing_grant
          s k l)+
qed

end
